theory Spec2Isabelle
  imports Complex_Main "HOL-Library.Multiset"
begin

section \<open>Exceptions\<close>

text \<open>
  The exception classes that occur. \<open>RepeatedInitializationError\<close> is raised by
  \<open>init_process_group\<close>; \<open>AssertionError\<close> by the \<open>assert\<close> statements of the
  collectives; \<open>AttributeError\<close> by an attribute access on \<open>None\<close>;
  \<open>ZeroDivisionError\<close> by \<open>%\<close> and \<open>//\<close> with a zero divisor. \<open>StoreTimeout\<close>
  stands for a \<open>store.get\<close> of a key that nobody has set: the call does not return
  (it blocks, or times out as the store decides). \<open>InvalidDeviceError\<close> is the
  failure that the specification gives to coalescing tensors of different devices or on
  the host; \<open>NotInitializedError\<close> and \<open>ConfigurationError\<close> are two more names of
  the specification. No statement of \<open>communication.py\<close> or \<open>fuse_optimizer.py\<close>
  raises one of these three.
\<close>

datatype exn =
    RepeatedInitializationError
  | AssertionError
  | AttributeError
  | ZeroDivisionError
  | StoreTimeout
  | NotInitializedError
  | InvalidDeviceError
  | ConfigurationError

section \<open>fuse_optimizer.py\<close>

text \<open>
  What the grouper reads of a parameter tensor: the address of its storage
  (\<open>p.data.storage().data_ptr()\<close>), its offset into that storage
  (\<open>p.storage_offset()\<close>, the same number as \<open>p.data.storage_offset()\<close>), its
  element count, the allocated element count of its \<open>bagua_tensor\<close> attribute when it
  has one, and the storage offset of its gradient, \<open>None\<close> when \<open>p.grad\<close> is \<open>None\<close>.
  \<open>pname\<close> tells parameters apart.
\<close>

record param =
  pname :: string
  storage_ptr :: nat
  storage_offset :: nat
  numel :: nat
  bagua_tensor :: "nat option"
  grad :: "nat option"

definition allocate_size :: "param \<Rightarrow> nat" where
  "allocate_size a = (case bagua_tensor a of Some n \<Rightarrow> n | None \<Rightarrow> numel a)"

text \<open>\<open>a.grad.data.storage_offset()\<close>: an attribute access on \<open>None\<close> raises.\<close>

definition grad_storage_offset :: "param \<Rightarrow> exn + nat" where
  "grad_storage_offset a = (case grad a of None \<Rightarrow> Inl AttributeError | Some g \<Rightarrow> Inr g)"

text \<open>
  One side of the \<open>or\<close> in \<open>is_contiguous_param\<close>: \<open>x\<close> starts where \<open>y\<close> ends, for
  the data and for the gradient. \<open>and\<close> evaluates the gradient comparison only when the
  data comparison holds, and reads \<open>x.grad\<close> before \<open>y.grad\<close>.
\<close>

definition follows :: "param \<Rightarrow> param \<Rightarrow> nat \<Rightarrow> exn + bool" where
  "follows x y allocate_size_y =
     (if storage_offset x = storage_offset y + allocate_size_y
      then (case grad_storage_offset x of
              Inl e \<Rightarrow> Inl e
            | Inr gx \<Rightarrow>
                (case grad_storage_offset y of
                   Inl e \<Rightarrow> Inl e
                 | Inr gy \<Rightarrow> Inr (gx = gy + allocate_size_y)))
      else Inr False)"

definition is_contiguous_param :: "param \<Rightarrow> param \<Rightarrow> exn + bool" where
  "is_contiguous_param a b =
     (let allocate_size_a = allocate_size a;
          allocate_size_b = allocate_size b
      in case follows a b allocate_size_b of
           Inl e \<Rightarrow> Inl e
         | Inr True \<Rightarrow> Inr True
         | Inr False \<Rightarrow> follows b a allocate_size_a)"

text \<open>
  The loop of \<open>reorder_params\<close> over the sorted parameters, with its two variables
  \<open>grouped\<close> and \<open>tmp_params\<close>. \<open>collocate_params\<close> (of \<open>bagua.torch_api.utils\<close>)
  turns a run into one fused parameter; it is a parameter of the model.
\<close>

fun reorder_loop ::
  "(param list \<Rightarrow> 'g) \<Rightarrow> param list \<Rightarrow> 'g list \<Rightarrow> param list \<Rightarrow> exn + ('g list \<times> param list)"
where
  "reorder_loop collocate_params [] grouped tmp_params = Inr (grouped, tmp_params)"
| "reorder_loop collocate_params (p # ps) grouped tmp_params =
     (if length tmp_params > 0
      then (case is_contiguous_param p (last tmp_params) of
              Inl e \<Rightarrow> Inl e
            | Inr c \<Rightarrow>
                if \<not> c
                then reorder_loop collocate_params ps
                       (grouped @ [collocate_params tmp_params]) ([] @ [p])
                else reorder_loop collocate_params ps grouped (tmp_params @ [p]))
      else reorder_loop collocate_params ps grouped (tmp_params @ [p]))"

text \<open>Python's \<open>sorted\<close> is stable, as \<open>sort_key\<close> is.\<close>

definition reorder_params :: "(param list \<Rightarrow> 'g) \<Rightarrow> param list \<Rightarrow> exn + 'g list" where
  "reorder_params collocate_params params =
     (let sorted_params = sort_key storage_offset params
      in case reorder_loop collocate_params sorted_params [] [] of
           Inl e \<Rightarrow> Inl e
         | Inr (grouped, tmp_params) \<Rightarrow>
             if length tmp_params > 0
             then Inr (grouped @ [collocate_params tmp_params])
             else Inr grouped)"

text \<open>
  A Python \<open>dict\<close> keeps its keys in the order of their first insertion: an association
  list, where storing under a key that is present replaces the value in place.
\<close>

fun dict_get :: "('k \<times> 'v) list \<Rightarrow> 'k \<Rightarrow> 'v \<Rightarrow> 'v" where
  "dict_get [] k d = d"
| "dict_get ((k', v) # kvs) k d = (if k' = k then v else dict_get kvs k d)"

fun dict_set :: "('k \<times> 'v) list \<Rightarrow> 'k \<Rightarrow> 'v \<Rightarrow> ('k \<times> 'v) list" where
  "dict_set [] k v = [(k, v)]"
| "dict_set ((k', v') # kvs) k v =
     (if k' = k then (k, v) # kvs else (k', v') # dict_set kvs k v)"

fun group_loop :: "param list \<Rightarrow> (nat \<times> param list) list \<Rightarrow> (nat \<times> param list) list" where
  "group_loop [] grouped_params = grouped_params"
| "group_loop (p # ps) grouped_params =
     (let weight_storage = storage_ptr p;
          l = dict_get grouped_params weight_storage [];
          l = l @ [p]
      in group_loop ps (dict_set grouped_params weight_storage l))"

definition group_params_by_storage :: "param list \<Rightarrow> (nat \<times> param list) list" where
  "group_params_by_storage params = group_loop params []"

text \<open>
  \<open>FusedOptimizer.step\<close>. The inner loop extends \<open>fused_params\<close> with the reordered
  parameters of each bucket, in the order of \<open>grouped_params.items()\<close>.
\<close>

fun fuse_loop ::
  "(param list \<Rightarrow> param) \<Rightarrow> (nat \<times> param list) list \<Rightarrow> param list \<Rightarrow> exn + param list"
where
  "fuse_loop collocate_params [] fused_params = Inr fused_params"
| "fuse_loop collocate_params ((k, group_p) # items) fused_params =
     (case reorder_params collocate_params group_p of
        Inl e \<Rightarrow> Inl e
      | Inr r \<Rightarrow> fuse_loop collocate_params items (fused_params @ r))"

text \<open>
  The outer loop assigns \<open>group["params"]\<close> of one group after the other. \<open>finished\<close>
  are the groups already assigned, which keep their new list when a later group raises.
\<close>

fun step_loop ::
  "(param list \<Rightarrow> param) \<Rightarrow> param list list \<Rightarrow> param list list \<Rightarrow> (exn + unit) \<times> param list list"
where
  "step_loop collocate_params finished [] = (Inr (), finished)"
| "step_loop collocate_params finished (params # rest) =
     (let grouped_params = group_params_by_storage params
      in case fuse_loop collocate_params grouped_params [] of
           Inl e \<Rightarrow> (Inl e, finished @ params # rest)
         | Inr fused_params \<Rightarrow> step_loop collocate_params (finished @ [fused_params]) rest)"

text \<open>
  The state of the optimizer is the \<open>params\<close> list of each of its \<open>param_groups\<close>.
  \<open>optimizer_step\<close> is the wrapped optimizer's own \<open>step\<close>, a parameter of the model;
  it runs on the regrouped lists.
\<close>

definition step ::
  "(param list \<Rightarrow> param) \<Rightarrow> (param list list \<Rightarrow> 'r) \<Rightarrow> param list list
     \<Rightarrow> (exn + 'r) \<times> param list list"
where
  "step collocate_params optimizer_step param_groups =
     (case step_loop collocate_params [] param_groups of
        (Inl e, groups') \<Rightarrow> (Inl e, groups')
      | (Inr u, groups') \<Rightarrow> (Inr (optimizer_step groups'), groups'))"

section \<open>communication.py\<close>

subsection \<open>Environment, store and communicators\<close>

text \<open>
  The functions of \<open>bagua.torch_api.env\<close> read the environment of the process; they
  are the fields of \<open>env\<close>. \<open>generate_nccl_unique_id_str\<close> (of \<open>bagua_core\<close>) gives
  a new token at each call: the \<open>n\<close>-th call of the process gives the value at \<open>n\<close>.
\<close>

record env =
  get_rank :: int
  get_world_size :: int
  get_local_rank :: int
  get_local_size :: int
  get_master_addr :: string
  get_bagua_service_port :: int
  get_default_bucket_size :: int
  generate_nccl_unique_id_str :: "nat \<Rightarrow> string"

datatype stream = CurrentStream | Stream int

record communicator =
  comm_rank :: int
  comm_nranks :: int
  comm_device_id :: int
  stream_ptr :: stream
  nccl_unique_id_str :: string
  cuda_stream :: stream

datatype event =
    StoreSet string string
  | StoreGet string
  | RecordEvent stream
  | WaitEvent stream
  | CommBroadcast communicator nat int
  | CommAllreduce communicator nat
  | Synchronize

datatype hyperparameter = BaguaHyperparameter

record bagua_global_state =
  backend :: int
  stream :: stream
  hyperparameters :: hyperparameter
  hyperparameters_service_client :: "string \<times> int"
  internode_communicator :: "communicator option"
  intranode_communicator :: communicator
  global_communicator :: communicator

text \<open>
  The state of one process: the module variables \<open>_global_state\<close> and
  \<open>_autotune_server\<close> (host, port, world size and bucket size of the service process),
  whether \<open>torch.distributed\<close> is initialized, the default store (every \<open>store\<close>
  argument in this module is \<open>c10d._get_default_store()\<close>), the number of tokens
  generated, and the store and stream operations and collectives issued so far.
\<close>

record proc =
  global_state :: "bagua_global_state option"
  autotune_server :: "(string \<times> int \<times> int \<times> int) option"
  dist_is_initialized :: bool
  default_store :: "string \<rightharpoonup> string"
  ids_generated :: nat
  events :: "event list"

definition get_global_state :: "proc \<Rightarrow> bagua_global_state option" where
  "get_global_state st = global_state st"

definition is_initialized :: "proc \<Rightarrow> bool" where
  "is_initialized st = (global_state st \<noteq> None)"

definition get_bagua_hyperparameters :: "proc \<Rightarrow> exn + hyperparameter" where
  "get_bagua_hyperparameters st =
     (case global_state st of None \<Rightarrow> Inl AttributeError | Some g \<Rightarrow> Inr (hyperparameters g))"

definition get_hyperparameters_service_client :: "proc \<Rightarrow> exn + string \<times> int" where
  "get_hyperparameters_service_client st =
     (case global_state st of
        None \<Rightarrow> Inl AttributeError
      | Some g \<Rightarrow> Inr (hyperparameters_service_client g))"

text \<open>The decimal digits of an integer, as an f-string prints it.\<close>

fun str_nat :: "nat \<Rightarrow> string" where
  "str_nat n =
     (if n < 10 then [''0123456789'' ! n]
      else str_nat (n div 10) @ [''0123456789'' ! (n mod 10)])"

declare str_nat.simps [simp del]

definition str_int :: "int \<Rightarrow> string" where
  "str_int i = (if i < 0 then ''-'' @ str_nat (nat (- i)) else str_nat (nat i))"

definition unique_id_key :: "string \<Rightarrow> int \<Rightarrow> string" where
  "unique_id_key comm_type root' = comm_type @ ''-'' @ str_int root' @ ''-unique_id''"

text \<open>
  \<open>gen_nccl_unique_id\<close>: the process whose global rank is \<open>root\<close> generates the token
  and sets it in the store, every other process gets it from the store. The bytes that
  \<open>store.get\<close> returns are the text that was set.
\<close>

definition gen_nccl_unique_id :: "string \<Rightarrow> int \<Rightarrow> env \<Rightarrow> proc \<Rightarrow> (exn + string) \<times> proc" where
  "gen_nccl_unique_id comm_type root' e st =
     (let key = unique_id_key comm_type root'
      in if get_rank e = root'
         then (let idstr = generate_nccl_unique_id_str e (ids_generated st)
               in (Inr idstr,
                   st\<lparr>ids_generated := Suc (ids_generated st),
                      default_store := (default_store st)(key \<mapsto> idstr),
                      events := events st @ [StoreSet key idstr]\<rparr>))
         else (case default_store st key of
                 None \<Rightarrow> (Inl StoreTimeout, st\<lparr>events := events st @ [StoreGet key]\<rparr>)
               | Some idstr \<Rightarrow> (Inr idstr, st\<lparr>events := events st @ [StoreGet key]\<rparr>)))"

definition init_bagua_inter_communicator ::
  "stream \<Rightarrow> int \<Rightarrow> int option \<Rightarrow> env \<Rightarrow> proc \<Rightarrow> (exn + communicator option) \<times> proc"
where
  "init_bagua_inter_communicator strm leader_rank device_id e st =
     (let device_id = (case device_id of None \<Rightarrow> get_local_rank e | Some d \<Rightarrow> d)
      in case gen_nccl_unique_id ''bagua_inter_comm'' leader_rank e st of
           (Inl err, st') \<Rightarrow> (Inl err, st')
         | (Inr nccl_unique_id, st') \<Rightarrow>
             if get_local_size e = 0 then (Inl ZeroDivisionError, st')
             else if get_rank e mod get_local_size e \<noteq> leader_rank then (Inr None, st')
             else (Inr (Some \<lparr>comm_rank = get_rank e div get_local_size e,
                              comm_nranks = get_world_size e div get_local_size e,
                              comm_device_id = device_id,
                              stream_ptr = strm,
                              nccl_unique_id_str = nccl_unique_id,
                              cuda_stream = strm\<rparr>), st'))"

definition init_bagua_intra_communicator ::
  "stream \<Rightarrow> int option \<Rightarrow> env \<Rightarrow> proc \<Rightarrow> (exn + communicator) \<times> proc"
where
  "init_bagua_intra_communicator strm device_id e st =
     (let device_id = (case device_id of None \<Rightarrow> get_local_rank e | Some d \<Rightarrow> d)
      in if get_local_size e = 0 then (Inl ZeroDivisionError, st)
         else
           (case gen_nccl_unique_id ''bagua_intra_comm''
                   (get_rank e div get_local_size e * get_local_size e) e st of
              (Inl err, st') \<Rightarrow> (Inl err, st')
            | (Inr nccl_unique_id, st') \<Rightarrow>
                (Inr \<lparr>comm_rank = get_rank e mod get_local_size e,
                      comm_nranks = get_local_size e,
                      comm_device_id = device_id,
                      stream_ptr = strm,
                      nccl_unique_id_str = nccl_unique_id,
                      cuda_stream = strm\<rparr>, st')))"

definition init_bagua_communicator ::
  "stream \<Rightarrow> int option \<Rightarrow> env \<Rightarrow> proc \<Rightarrow> (exn + communicator) \<times> proc"
where
  "init_bagua_communicator strm device_id e st =
     (let device_id = (case device_id of None \<Rightarrow> get_local_rank e | Some d \<Rightarrow> d)
      in case gen_nccl_unique_id ''bagua_global_comm'' 0 e st of
           (Inl err, st') \<Rightarrow> (Inl err, st')
         | (Inr nccl_unique_id, st') \<Rightarrow>
             (Inr \<lparr>comm_rank = get_rank e,
                   comm_nranks = get_world_size e,
                   comm_device_id = device_id,
                   stream_ptr = strm,
                   nccl_unique_id_str = nccl_unique_id,
                   cuda_stream = strm\<rparr>, st'))"

text \<open>\<open>BaguaGlobalState.__init__\<close>: the three communicators, in the order of the code.\<close>

definition BaguaGlobalState ::
  "int option \<Rightarrow> env \<Rightarrow> proc \<Rightarrow> (exn + bagua_global_state) \<times> proc"
where
  "BaguaGlobalState device_id e st =
     (let device_id = (case device_id of None \<Rightarrow> get_local_rank e | Some d \<Rightarrow> d);
          strm = Stream (- 1)
      in case init_bagua_inter_communicator strm 0 (Some device_id) e st of
           (Inl err, st1) \<Rightarrow> (Inl err, st1)
         | (Inr internode, st1) \<Rightarrow>
             (case init_bagua_intra_communicator strm (Some device_id) e st1 of
                (Inl err, st2) \<Rightarrow> (Inl err, st2)
              | (Inr intranode, st2) \<Rightarrow>
                  (case init_bagua_communicator strm (Some device_id) e st2 of
                     (Inl err, st3) \<Rightarrow> (Inl err, st3)
                   | (Inr global, st3) \<Rightarrow>
                       (Inr \<lparr>backend = device_id,
                             stream = strm,
                             hyperparameters = BaguaHyperparameter,
                             hyperparameters_service_client =
                               (get_master_addr e, get_bagua_service_port e),
                             internode_communicator = internode,
                             intranode_communicator = intranode,
                             global_communicator = global\<rparr>, st3))))"

definition init_process_group :: "env \<Rightarrow> proc \<Rightarrow> (exn + unit) \<times> proc" where
  "init_process_group e st =
     (if is_initialized st then (Inl RepeatedInitializationError, st)
      else
        (let st1 = (if \<not> dist_is_initialized st then st\<lparr>dist_is_initialized := True\<rparr> else st);
             st2 = (if get_rank e = 0
                    then st1\<lparr>autotune_server :=
                               Some (''0.0.0.0'', get_bagua_service_port e,
                                     get_world_size e, get_default_bucket_size e)\<rparr>
                    else st1)
         in case BaguaGlobalState None e st2 of
              (Inl err, st3) \<Rightarrow> (Inl err, st3)
            | (Inr g, st3) \<Rightarrow> (Inr (), st3\<lparr>global_state := Some g\<rparr>)))"

subsection \<open>Tensors and collectives\<close>

text \<open>
  A tensor is its device, its shape and its elements in row-major order. An element is
  a real number, or a non-finite value (what a division by zero leaves in a
  floating-point tensor): rounding is not modelled.
\<close>

datatype device = CPU | CUDA int

datatype scalar = Fin real | NonFinite

record tensor =
  device :: device
  shape :: "nat list"
  elems :: "scalar list"

fun add_scalar :: "scalar \<Rightarrow> scalar \<Rightarrow> scalar" where
  "add_scalar (Fin x) (Fin y) = Fin (x + y)"
| "add_scalar x y = NonFinite"

text \<open>\<open>tensor /= n\<close> on one element.\<close>

fun div_scalar :: "scalar \<Rightarrow> int \<Rightarrow> scalar" where
  "div_scalar (Fin x) n = (if n = 0 then NonFinite else Fin (x / of_int n))"
| "div_scalar NonFinite n = NonFinite"

text \<open>\<open>buf.copy_(synced)\<close> writes the elements and keeps the device and the shape.\<close>

definition copy_tensor :: "tensor \<Rightarrow> scalar list \<Rightarrow> tensor" where
  "copy_tensor buf synced = buf\<lparr>elems := synced\<rparr>"

text \<open>
  The collectives of a communicator (\<open>bagua_core\<close>) work in place on a buffer of the
  process. What they leave in the buffer depends on the other processes: it is a
  parameter of the model.
\<close>

record net =
  comm_broadcast :: "communicator \<Rightarrow> scalar list \<Rightarrow> int \<Rightarrow> scalar list"
  comm_allreduce :: "communicator \<Rightarrow> scalar list \<Rightarrow> scalar list"

text \<open>
  Modelled from the spec: \<open>flatten\<close> of \<open>bagua.torch_api.utils\<close>, which is not among
  the sources. It concatenates the contents of the tensors in input order into one new
  buffer whose size is the sum of the element counts; the devices of all inputs must be
  identical and not the host, else it fails with \<open>InvalidDeviceError\<close>.
\<close>

definition flatten :: "tensor list \<Rightarrow> exn + scalar list" where
  "flatten tensors =
     (if (\<exists>t \<in> set tensors. device t = CPU)
         \<or> (\<exists>t \<in> set tensors. \<exists>u \<in> set tensors. device t \<noteq> device u)
      then Inl InvalidDeviceError
      else Inr (concat (map elems tensors)))"

text \<open>
  Modelled from the spec: \<open>unflatten\<close> of \<open>bagua.torch_api.utils\<close>, which is not
  among the sources. It gives, for each tensor in order, the slice of the coalesced
  buffer that holds it; each slice has the element count of its tensor.
\<close>

fun unflatten :: "scalar list \<Rightarrow> tensor list \<Rightarrow> scalar list list" where
  "unflatten coalesced [] = []"
| "unflatten coalesced (t # ts) =
     take (length (elems t)) coalesced # unflatten (drop (length (elems t)) coalesced) ts"

text \<open>
  \<open>for buf, synced in zip(tensors, unflatten(coalesced, tensors)): buf.copy_(synced)\<close>.
  The tensors of the list are taken to be distinct objects.
\<close>

definition scatter :: "scalar list \<Rightarrow> tensor list \<Rightarrow> tensor list" where
  "scatter coalesced tensors =
     map (\<lambda>(buf, synced). copy_tensor buf synced) (zip tensors (unflatten coalesced tensors))"

text \<open>\<open>if comm is None: comm = _get_global_state().get_global_communicator()\<close>.\<close>

definition resolve_comm :: "communicator option \<Rightarrow> proc \<Rightarrow> exn + communicator" where
  "resolve_comm comm st =
     (case comm of
        Some c \<Rightarrow> Inr c
      | None \<Rightarrow>
          (case get_global_state st of
             None \<Rightarrow> Inl AttributeError
           | Some g \<Rightarrow> Inr (global_communicator g)))"

text \<open>
  The event recorded on the current stream and awaited by the stream of the
  communicator.
\<close>

definition stream_order :: "communicator \<Rightarrow> proc \<Rightarrow> proc" where
  "stream_order comm st =
     st\<lparr>events := events st @ [RecordEvent CurrentStream, WaitEvent (cuda_stream comm)]\<rparr>"

definition issue :: "event \<Rightarrow> proc \<Rightarrow> proc" where
  "issue ev st = st\<lparr>events := events st @ [ev]\<rparr>"

text \<open>
  The four collectives return the tensors they have written in place, and the state of
  the process.
\<close>

definition broadcast_coalesced ::
  "net \<Rightarrow> tensor list \<Rightarrow> int \<Rightarrow> communicator option \<Rightarrow> proc \<Rightarrow> (exn + tensor list) \<times> proc"
where
  "broadcast_coalesced nt tensors root' comm st =
     (if \<exists>t \<in> set tensors. device t = CPU then (Inl AssertionError, st)
      else
        (case resolve_comm comm st of
           Inl err \<Rightarrow> (Inl err, st)
         | Inr comm \<Rightarrow>
             (let st1 = stream_order comm st
              in case flatten tensors of
                   Inl err \<Rightarrow> (Inl err, st1)
                 | Inr coalesced \<Rightarrow>
                     (let st2 = issue (CommBroadcast comm (length coalesced) root') st1;
                          coalesced = comm_broadcast nt comm coalesced root'
                      in (Inr (scatter coalesced tensors), issue Synchronize st2)))))"

definition broadcast ::
  "net \<Rightarrow> tensor \<Rightarrow> int \<Rightarrow> communicator option \<Rightarrow> proc \<Rightarrow> (exn + tensor) \<times> proc"
where
  "broadcast nt t root' comm st =
     (if device t = CPU then (Inl AssertionError, st)
      else
        (case resolve_comm comm st of
           Inl err \<Rightarrow> (Inl err, st)
         | Inr comm \<Rightarrow>
             (let st1 = stream_order comm st;
                  st2 = issue (CommBroadcast comm (length (elems t)) root') st1;
                  t = t\<lparr>elems := comm_broadcast nt comm (elems t) root'\<rparr>
              in (Inr t, issue Synchronize st2))))"

definition allreduce_coalesced ::
  "net \<Rightarrow> tensor list \<Rightarrow> communicator option \<Rightarrow> bool \<Rightarrow> proc \<Rightarrow> (exn + tensor list) \<times> proc"
where
  "allreduce_coalesced nt tensors comm average st =
     (if \<exists>t \<in> set tensors. device t = CPU then (Inl AssertionError, st)
      else
        (case resolve_comm comm st of
           Inl err \<Rightarrow> (Inl err, st)
         | Inr comm \<Rightarrow>
             (let st1 = stream_order comm st
              in case flatten tensors of
                   Inl err \<Rightarrow> (Inl err, st1)
                 | Inr coalesced \<Rightarrow>
                     (let st2 = issue (CommAllreduce comm (length coalesced)) st1;
                          coalesced = comm_allreduce nt comm coalesced;
                          coalesced = (if average
                                       then map (\<lambda>x. div_scalar x (comm_nranks comm)) coalesced
                                       else coalesced)
                      in (Inr (scatter coalesced tensors), issue Synchronize st2)))))"

definition allreduce ::
  "net \<Rightarrow> tensor \<Rightarrow> bool \<Rightarrow> communicator option \<Rightarrow> proc \<Rightarrow> (exn + tensor) \<times> proc"
where
  "allreduce nt t average comm st =
     (if device t = CPU then (Inl AssertionError, st)
      else
        (case resolve_comm comm st of
           Inl err \<Rightarrow> (Inl err, st)
         | Inr comm \<Rightarrow>
             (let st1 = stream_order comm st;
                  st2 = issue (CommAllreduce comm (length (elems t))) st1;
                  t = t\<lparr>elems := comm_allreduce nt comm (elems t)\<rparr>;
                  t = (if average
                       then t\<lparr>elems := map (\<lambda>x. div_scalar x (comm_nranks comm)) (elems t)\<rparr>
                       else t)
              in (Inr t, issue Synchronize st2))))"

text \<open>
  Modelled from the spec: the all-reduce and the broadcast of \<open>bagua_core\<close>, which are
  not among the sources. In an all-reduce every member's buffer is combined by
  elementwise sum across all members, and every member gets the result; in a broadcast
  the content of the buffer of the root is copied to all other members. \<open>bufs\<close> are
  the buffers that the members hold, in the order of their ranks; the calling member
  contributes the buffer it passes.
\<close>

definition collective_sum :: "scalar list list \<Rightarrow> scalar list" where
  "collective_sum bufs =
     (case bufs of [] \<Rightarrow> [] | b # bs \<Rightarrow> foldl (\<lambda>acc v. map2 add_scalar acc v) b bs)"

definition members :: "scalar list list \<Rightarrow> net" where
  "members bufs =
     \<lparr>comm_broadcast = (\<lambda>c b r.
         if 0 \<le> r \<and> nat r < length bufs then (bufs[nat (comm_rank c) := b]) ! nat r else b),
      comm_allreduce = (\<lambda>c b. collective_sum (bufs[nat (comm_rank c) := b]))\<rparr>"

section \<open>Notions used in the statements\<close>

text \<open>
  When parameter \<open>l\<close> comes after parameter \<open>e\<close> in the order of storage offsets:
  \<open>l\<close> starts where \<open>e\<close> ends, for the data and for the gradient; or \<open>l\<close> has no
  allocated element and the offsets of \<open>e\<close>, so that \<open>e\<close> starts where \<open>l\<close> ends.
\<close>

definition adjoins :: "param \<Rightarrow> param \<Rightarrow> bool" where
  "adjoins e l \<longleftrightarrow>
     (storage_offset l = storage_offset e + allocate_size e
        \<and> grad l = map_option (\<lambda>g. g + allocate_size e) (grad e))
     \<or> (allocate_size l = 0 \<and> storage_offset l = storage_offset e \<and> grad l = grad e)"

text \<open>
  Groups that are maximal runs: no group is empty, neighbours inside a group adjoin, and
  the last parameter of a group and the first of the next group do not.
\<close>

definition maximal_runs :: "param list list \<Rightarrow> bool" where
  "maximal_runs gs \<longleftrightarrow>
     [] \<notin> set gs \<and> (\<forall>g \<in> set gs. successively adjoins g)
       \<and> successively (\<lambda>g h. \<not> adjoins (last g) (hd h)) gs"

text \<open>
  A parameter of \<open>sz\<close> elements at offset \<open>off\<close> of the storage at \<open>ptr\<close>, whose
  gradient has the same offset and size.
\<close>

definition example_param :: "string \<Rightarrow> nat \<Rightarrow> nat \<Rightarrow> nat \<Rightarrow> param" where
  "example_param name ptr off sz =
     \<lparr>pname = name, storage_ptr = ptr, storage_offset = off, numel = sz,
      bagua_tensor = None, grad = Some off\<rparr>"

text \<open>
  The buckets of the parameters \<open>pre\<close>: the keys are the storage addresses in the
  order of their first occurrence, and the bucket of an address holds the parameters with
  that address, in their order in \<open>pre\<close>.
\<close>

definition buckets_of :: "param list \<Rightarrow> (nat \<times> param list) list \<Rightarrow> bool" where
  "buckets_of pre g \<longleftrightarrow>
     map fst g = rev (remdups (rev (map storage_ptr pre)))
     \<and> (\<forall>k. map_of g k = (if k \<in> storage_ptr ` set pre
                           then Some (filter (\<lambda>p. storage_ptr p = k) pre) else None))"

text \<open>
  \<open>fused\<close> is what \<open>step\<close> makes of the list \<open>params\<close>: the results of
  \<open>reorder_params\<close> on the buckets of \<open>params\<close>, one after the other.
\<close>

definition regrouped :: "(param list \<Rightarrow> param) \<Rightarrow> param list \<Rightarrow> param list \<Rightarrow> bool" where
  "regrouped c params fused \<longleftrightarrow>
     (\<exists>rs. list_all2 (\<lambda>(k, l) r. reorder_params c l = Inr r) (group_params_by_storage params) rs
        \<and> fused = concat rs)"

text \<open>
  A process before \<open>init_process_group\<close>, an environment with global rank \<open>R\<close>, world
  size \<open>W\<close> and local size \<open>L\<close>, and a tensor of finite elements, for the examples.
\<close>

definition initial_proc :: proc where
  "initial_proc = \<lparr>global_state = None, autotune_server = None, dist_is_initialized = False,
     default_store = Map.empty, ids_generated = 0, events = []\<rparr>"

definition example_env :: "int \<Rightarrow> int \<Rightarrow> int \<Rightarrow> env" where
  "example_env R W L = \<lparr>get_rank = R, get_world_size = W, get_local_rank = R mod L,
     get_local_size = L, get_master_addr = ''127.0.0.1'', get_bagua_service_port = 29501,
     get_default_bucket_size = 10485760,
     generate_nccl_unique_id_str = (\<lambda>n. ''id'' @ str_nat n)\<rparr>"

definition example_tensor :: "device \<Rightarrow> real list \<Rightarrow> tensor" where
  "example_tensor d xs = \<lparr>device = d, shape = [length xs], elems = map Fin xs\<rparr>"

text \<open>A communicator of rank \<open>r\<close> among \<open>n\<close>, for the examples.\<close>

definition example_comm :: "int \<Rightarrow> int \<Rightarrow> communicator" where
  "example_comm r n = \<lparr>comm_rank = r, comm_nranks = n, comm_device_id = r,
     stream_ptr = Stream (- 1), nccl_unique_id_str = ''id0'', cuda_stream = Stream (- 1)\<rparr>"

section \<open>The grouper of the fused optimizer\<close>

lemma is_contiguous_param_sorted:
  assumes "grad a \<noteq> None" "grad b \<noteq> None" "storage_offset b \<le> storage_offset a"
  shows "is_contiguous_param a b = Inr (adjoins b a)"
  using assms
  by (auto simp: is_contiguous_param_def follows_def grad_storage_offset_def adjoins_def Let_def
      split: sum.splits bool.splits option.splits)

lemma maximal_runs_new:
  assumes "maximal_runs (P @ [t])" "\<not> adjoins (last t) p"
  shows "maximal_runs (P @ [t] @ [[p]])"
  using assms by (auto simp: maximal_runs_def successively_append_iff)

lemma maximal_runs_extend:
  assumes "maximal_runs (P @ [t])" "adjoins (last t) p"
  shows "maximal_runs (P @ [t @ [p]])"
  using assms by (auto simp: maximal_runs_def successively_append_iff)

text \<open>
  The invariant of the loop: with a run \<open>tmp\<close> in progress, the loop closes the groups
  \<open>gs\<close> and ends with the run \<open>tmp'\<close>, and whatever groups \<open>P\<close> came before, they
  stay maximal runs.
\<close>

lemma reorder_loop_runs:
  assumes "tmp \<noteq> []" "\<forall>p \<in> set (tmp @ ps). grad p \<noteq> None"
    "sorted (map storage_offset (tmp @ ps))"
  shows "\<exists>gs tmp'. reorder_loop c ps (map c G) tmp = Inr (map c (G @ gs), tmp') \<and> tmp' \<noteq> []
           \<and> concat gs @ tmp' = tmp @ ps
           \<and> (\<forall>P. maximal_runs (P @ [tmp]) \<longrightarrow> maximal_runs (P @ gs @ [tmp']))"
  using assms
proof (induction ps arbitrary: G tmp)
  case Nil
  then show ?case by simp
next
  case (Cons p ps)
  have le: "storage_offset (last tmp) \<le> storage_offset p"
    using Cons.prems(1,3) by (cases tmp rule: rev_cases) (auto simp: sorted_append)
  have gr: "grad p \<noteq> None" "grad (last tmp) \<noteq> None"
    using Cons.prems(1,2) by auto
  have ic: "is_contiguous_param p (last tmp) = Inr (adjoins (last tmp) p)"
    using is_contiguous_param_sorted[OF gr le] .
  show ?case
  proof (cases "adjoins (last tmp) p")
    case True
    have "\<exists>gs tmp'. reorder_loop c ps (map c G) (tmp @ [p]) = Inr (map c (G @ gs), tmp')
           \<and> tmp' \<noteq> [] \<and> concat gs @ tmp' = (tmp @ [p]) @ ps
           \<and> (\<forall>P. maximal_runs (P @ [tmp @ [p]]) \<longrightarrow> maximal_runs (P @ gs @ [tmp']))"
      using Cons.prems by (intro Cons.IH) auto
    then obtain gs tmp' where
      h: "reorder_loop c ps (map c G) (tmp @ [p]) = Inr (map c (G @ gs), tmp')"
        "tmp' \<noteq> []" "concat gs @ tmp' = (tmp @ [p]) @ ps"
        "\<forall>P. maximal_runs (P @ [tmp @ [p]]) \<longrightarrow> maximal_runs (P @ gs @ [tmp'])"
      by blast
    have "\<forall>P. maximal_runs (P @ [tmp]) \<longrightarrow> maximal_runs (P @ gs @ [tmp'])"
      using h(4) maximal_runs_extend[OF _ True] by blast
    with h(1-3) True ic Cons.prems(1) show ?thesis by auto
  next
    case False
    have "\<exists>gs tmp'. reorder_loop c ps (map c (G @ [tmp])) [p]
             = Inr (map c ((G @ [tmp]) @ gs), tmp')
           \<and> tmp' \<noteq> [] \<and> concat gs @ tmp' = [p] @ ps
           \<and> (\<forall>P. maximal_runs (P @ [[p]]) \<longrightarrow> maximal_runs (P @ gs @ [tmp']))"
      using Cons.prems by (intro Cons.IH) (auto simp: sorted_append)
    then obtain gs tmp' where
      h: "reorder_loop c ps (map c (G @ [tmp])) [p] = Inr (map c ((G @ [tmp]) @ gs), tmp')"
        "tmp' \<noteq> []" "concat gs @ tmp' = [p] @ ps"
        "\<forall>P. maximal_runs (P @ [[p]]) \<longrightarrow> maximal_runs (P @ gs @ [tmp'])"
      by blast
    have "\<forall>P. maximal_runs (P @ [tmp]) \<longrightarrow> maximal_runs (P @ (tmp # gs) @ [tmp'])"
    proof (intro allI impI)
      fix P assume "maximal_runs (P @ [tmp])"
      then have "maximal_runs ((P @ [tmp]) @ [[p]])"
        using maximal_runs_new[OF _ False] by simp
      then have "maximal_runs ((P @ [tmp]) @ gs @ [tmp'])" using h(4) by blast
      then show "maximal_runs (P @ (tmp # gs) @ [tmp'])" by simp
    qed
    moreover have "reorder_loop c (p # ps) (map c G) tmp = Inr (map c (G @ (tmp # gs)), tmp')"
      using h(1) False ic Cons.prems(1) by simp
    moreover have "concat (tmp # gs) @ tmp' = tmp @ p # ps" using h(3) by simp
    ultimately show ?thesis using h(2) by blast
  qed
qed

lemma reorder_params_runs:
  assumes "\<forall>p \<in> set params. grad p \<noteq> None"
  shows "\<exists>gs. reorder_params c params = Inr (map c gs)
           \<and> concat gs = sort_key storage_offset params \<and> maximal_runs gs"
proof (cases "sort_key storage_offset params")
  case Nil
  then show ?thesis by (simp add: reorder_params_def maximal_runs_def)
next
  case (Cons p ps)
  have g: "\<forall>q \<in> set ([p] @ ps). grad q \<noteq> None"
    using assms Cons by (metis append_Cons append_Nil set_sort)
  have s: "sorted (map storage_offset ([p] @ ps))"
    using Cons by (metis append_Cons append_Nil sorted_sort_key)
  obtain gs tmp' where
    h: "reorder_loop c ps (map c []) [p] = Inr (map c ([] @ gs), tmp')"
      "tmp' \<noteq> []" "concat gs @ tmp' = [p] @ ps"
      "\<forall>P. maximal_runs (P @ [[p]]) \<longrightarrow> maximal_runs (P @ gs @ [tmp'])"
    using reorder_loop_runs[OF _ g s, of c "[]"] by blast
  have "maximal_runs ([] @ [[p]])" by (simp add: maximal_runs_def)
  then have "maximal_runs (gs @ [tmp'])" using h(4) by (metis append_Nil)
  moreover have "reorder_params c params = Inr (map c (gs @ [tmp']))"
    using h(1,2) Cons by (simp add: reorder_params_def)
  moreover have "concat (gs @ [tmp']) = sort_key storage_offset params"
    using h(3) Cons by simp
  ultimately show ?thesis by blast
qed

lemmas reorder_eval =
  reorder_params_def example_param_def is_contiguous_param_def follows_def
  grad_storage_offset_def allocate_size_def

text \<open>
  C1, as the code has it. When every parameter of the list has a gradient,
  \<open>reorder_params\<close> returns the fused groups of the parameters sorted by storage offset
  (a stable sort), cut into maximal runs: two neighbours are in one run exactly when
  the later one starts where the earlier one ends, for the data and for the gradient,
  or when the later one has no allocated element and the same two offsets as the
  earlier one. For A = (0,10), B = (10,10), C = (30,5) in one allocation the result is
  the group of A and B, then the group of C.
\<close>

theorem reorder_params_maximal_runs:
  "((\<forall>p \<in> set params. grad p \<noteq> None) \<longrightarrow>
      (\<exists>gs. reorder_params c params = Inr (map c gs)
         \<and> concat gs = sort_key storage_offset params \<and> maximal_runs gs))
   \<and> reorder_params c
        [example_param ''A'' s 0 10, example_param ''B'' s 10 10, example_param ''C'' s 30 5]
      = Inr [c [example_param ''A'' s 0 10, example_param ''B'' s 10 10],
             c [example_param ''C'' s 30 5]]"
proof
  show "(\<forall>p \<in> set params. grad p \<noteq> None) \<longrightarrow>
      (\<exists>gs. reorder_params c params = Inr (map c gs)
         \<and> concat gs = sort_key storage_offset params \<and> maximal_runs gs)"
    using reorder_params_runs by blast
  show "reorder_params c
        [example_param ''A'' s 0 10, example_param ''B'' s 10 10, example_param ''C'' s 30 5]
      = Inr [c [example_param ''A'' s 0 10, example_param ''B'' s 10 10],
             c [example_param ''C'' s 30 5]]"
    by (simp add: reorder_eval)
qed

theorem reorder_params_maximal_runs_witness:
  "grad (example_param ''C'' 7 30 5) \<noteq> None \<and> grad (example_param ''B'' 7 10 10) \<noteq> None
   \<and> grad (example_param ''A'' 7 0 10) \<noteq> None
   \<and> (\<exists>gs. reorder_params (\<lambda>g. g)
              [example_param ''C'' 7 30 5, example_param ''B'' 7 10 10,
               example_param ''A'' 7 0 10] = Inr (map (\<lambda>g. g) gs)
         \<and> concat gs = sort_key storage_offset
              [example_param ''C'' 7 30 5, example_param ''B'' 7 10 10,
               example_param ''A'' 7 0 10]
         \<and> maximal_runs gs)"
proof -
  have h: "\<forall>p \<in> set [example_param ''C'' 7 30 5, example_param ''B'' 7 10 10,
                example_param ''A'' 7 0 10]. grad p \<noteq> None"
    by (simp add: example_param_def)
  have "\<exists>gs. reorder_params (\<lambda>g. g)
              [example_param ''C'' 7 30 5, example_param ''B'' 7 10 10,
               example_param ''A'' 7 0 10] = Inr (map (\<lambda>g. g) gs)
         \<and> concat gs = sort_key storage_offset
              [example_param ''C'' 7 30 5, example_param ''B'' 7 10 10,
               example_param ''A'' 7 0 10]
         \<and> maximal_runs gs"
    using h reorder_params_maximal_runs
      [of "[example_param ''C'' 7 30 5, example_param ''B'' 7 10 10,
            example_param ''A'' 7 0 10]" "\<lambda>g. g"]
    by blast
  then show ?thesis by (simp add: example_param_def)
qed

theorem reorder_params_zero_size_counterexample:
  "reorder_params (\<lambda>g. g) [example_param ''P'' 7 0 10, example_param ''Z'' 7 0 0]
     = Inr [[example_param ''P'' 7 0 10, example_param ''Z'' 7 0 0]]
   \<and> storage_offset (example_param ''Z'' 7 0 0)
       \<noteq> storage_offset (example_param ''P'' 7 0 10) + allocate_size (example_param ''P'' 7 0 10)"
  by (simp add: reorder_eval)

lemma dict_get_map_of: "dict_get g k d = (case map_of g k of None \<Rightarrow> d | Some v \<Rightarrow> v)"
  by (induction g) auto

lemma map_of_dict_set: "map_of (dict_set g k v) = (map_of g)(k \<mapsto> v)"
  by (induction g) auto

lemma keys_dict_set:
  "map fst (dict_set g k v) = (if k \<in> set (map fst g) then map fst g else map fst g @ [k])"
  by (induction g) force+

lemma buckets_of_step:
  assumes "buckets_of pre g"
  shows "buckets_of (pre @ [p]) (dict_set g (storage_ptr p) (dict_get g (storage_ptr p) [] @ [p]))"
proof -
  have k: "set (map fst g) = storage_ptr ` set pre" using assms by (simp add: buckets_of_def)
  show ?thesis
    using assms unfolding buckets_of_def
    by (auto simp: keys_dict_set map_of_dict_set dict_get_map_of k filter_empty_conv image_iff)
qed

lemma group_loop_buckets:
  "buckets_of pre g \<Longrightarrow> buckets_of (pre @ ps) (group_loop ps g)"
proof (induction ps arbitrary: pre g)
  case Nil
  then show ?case by simp
next
  case (Cons p ps)
  from Cons.IH[OF buckets_of_step[OF Cons.prems, of p]] show ?case by (simp add: Let_def)
qed

lemma group_params_by_storage_buckets: "buckets_of params (group_params_by_storage params)"
  using group_loop_buckets[of "[]" "[]" params] by (simp add: buckets_of_def group_params_by_storage_def)

lemma mset_dict_set:
  "mset (concat (map snd (dict_set g k (dict_get g k [] @ [p])))) = mset (concat (map snd g)) + {#p#}"
  by (induction g) auto

lemma mset_group_loop: "mset (concat (map snd (group_loop ps g))) = mset (concat (map snd g)) + mset ps"
  by (induction ps arbitrary: g) (auto simp: Let_def mset_dict_set)

lemma group_params_by_storage_partition:
  "distinct (map fst (group_params_by_storage params))"
  "map fst (group_params_by_storage params) = rev (remdups (rev (map storage_ptr params)))"
  "(k, l) \<in> set (group_params_by_storage params) \<Longrightarrow> l = filter (\<lambda>p. storage_ptr p = k) params \<and> l \<noteq> []"
  "mset (concat (map snd (group_params_by_storage params))) = mset params"
proof -
  let ?g = "group_params_by_storage params"
  have b: "buckets_of params ?g" by (rule group_params_by_storage_buckets)
  show k: "map fst ?g = rev (remdups (rev (map storage_ptr params)))" using b by (simp add: buckets_of_def)
  show d: "distinct (map fst ?g)" by (simp add: k)
  show "mset (concat (map snd ?g)) = mset params"
    by (simp add: group_params_by_storage_def mset_group_loop)
  assume "(k, l) \<in> set ?g"
  then have "map_of ?g k = Some l" using d by simp
  then show "l = filter (\<lambda>p. storage_ptr p = k) params \<and> l \<noteq> []"
    using b by (auto simp: buckets_of_def filter_empty_conv split: if_splits)
qed

lemma fuse_loop_concat:
  "fuse_loop c items acc = Inr fused \<longleftrightarrow>
     (\<exists>rs. list_all2 (\<lambda>(k, l) r. reorder_params c l = Inr r) items rs \<and> fused = acc @ concat rs)"
proof (induction items arbitrary: acc)
  case Nil
  then show ?case by auto
next
  case (Cons kl items)
  obtain k l where kl: "kl = (k, l)" by (cases kl)
  show ?case
  proof (cases "reorder_params c l")
    case (Inl e)
    then show ?thesis by (auto simp: kl list_all2_Cons1)
  next
    case (Inr r)
    then show ?thesis by (auto simp: kl Cons.IH list_all2_Cons1)
  qed
qed

lemma step_loop_regrouped:
  "step_loop c fin gs = (Inr u, gs') \<Longrightarrow> \<exists>new. gs' = fin @ new \<and> list_all2 (regrouped c) gs new"
proof (induction gs arbitrary: fin)
  case Nil
  then show ?case by simp
next
  case (Cons params rest)
  show ?case
  proof (cases "fuse_loop c (group_params_by_storage params) []")
    case (Inl e)
    with Cons.prems show ?thesis by (simp add: Let_def)
  next
    case (Inr fused)
    with Cons.prems have "step_loop c (fin @ [fused]) rest = (Inr u, gs')" by (simp add: Let_def)
    from Cons.IH[OF this] obtain new where n: "gs' = (fin @ [fused]) @ new" "list_all2 (regrouped c) rest new" by blast
    have "regrouped c params fused" using Inr by (simp add: regrouped_def fuse_loop_concat)
    with n show ?thesis by (auto simp: list_all2_Cons1)
  qed
qed

lemma fuse_loop_total:
  assumes "\<forall>(k, l) \<in> set items. \<forall>p \<in> set l. grad p \<noteq> None"
  shows "\<exists>fused. fuse_loop c items acc = Inr fused"
  using assms
proof (induction items arbitrary: acc)
  case Nil
  then show ?case by simp
next
  case (Cons kl items)
  obtain k l where kl: "kl = (k, l)" by (cases kl)
  have "\<forall>p \<in> set l. grad p \<noteq> None" using Cons.prems kl by auto
  from reorder_params_runs[OF this, of c] obtain gs where "reorder_params c l = Inr (map c gs)" by blast
  then show ?case using Cons by (auto simp: kl)
qed

lemma step_loop_total:
  assumes "\<forall>params \<in> set gs. \<forall>p \<in> set params. grad p \<noteq> None"
  shows "\<exists>gs'. step_loop c fin gs = (Inr (), gs')"
  using assms
proof (induction gs arbitrary: fin)
  case Nil
  then show ?case by simp
next
  case (Cons params rest)
  have "\<forall>(k, l) \<in> set (group_params_by_storage params). \<forall>p \<in> set l. grad p \<noteq> None"
    using Cons.prems group_params_by_storage_partition(3)[of _ _ params] by fastforce
  from fuse_loop_total[OF this, of c "[]"] obtain fused where "fuse_loop c (group_params_by_storage params) [] = Inr fused" by blast
  then show ?case using Cons by (auto simp: Let_def)
qed

text \<open>
  C10. \<open>group_params_by_storage\<close> is a partition of the parameter list: its keys are
  the storage addresses of the parameters, each once, in the order of first encounter;
  the bucket of an address holds exactly the parameters with that address, in input
  order, and is not empty; so the buckets together hold each parameter as often as the
  input does. \<open>step\<close> computes this partition from the lists it is given, at every
  call: when it returns, each group's new list is the results of \<open>reorder_params\<close> on
  the buckets of that group's current list, in bucket order, and the wrapped optimizer
  has run on the new lists; it returns whenever every parameter has a gradient. It has
  no other input from which an earlier grouping could come.
\<close>

theorem group_params_by_storage_partition_step:
  "distinct (map fst (group_params_by_storage params))
   \<and> map fst (group_params_by_storage params) = rev (remdups (rev (map storage_ptr params)))
   \<and> (\<forall>(k, l) \<in> set (group_params_by_storage params).
         l = filter (\<lambda>p. storage_ptr p = k) params \<and> l \<noteq> [])
   \<and> mset (concat (map snd (group_params_by_storage params))) = mset params
   \<and> (\<forall>r groups'. step c optimizer_step groups = (Inr r, groups') \<longrightarrow>
         r = optimizer_step groups' \<and> list_all2 (regrouped c) groups groups')
   \<and> ((\<forall>ps \<in> set groups. \<forall>p \<in> set ps. grad p \<noteq> None) \<longrightarrow>
         (\<exists>groups'. step c optimizer_step groups = (Inr (optimizer_step groups'), groups')))"
proof (intro conjI allI impI)
  show "distinct (map fst (group_params_by_storage params))"
    by (rule group_params_by_storage_partition(1))
  show "map fst (group_params_by_storage params) = rev (remdups (rev (map storage_ptr params)))"
    by (rule group_params_by_storage_partition(2))
  show "\<forall>(k, l) \<in> set (group_params_by_storage params).
         l = filter (\<lambda>p. storage_ptr p = k) params \<and> l \<noteq> []"
    using group_params_by_storage_partition(3)[of _ _ params] by blast
  show "mset (concat (map snd (group_params_by_storage params))) = mset params"
    by (rule group_params_by_storage_partition(4))
next
  fix r groups'
  assume a: "step c optimizer_step groups = (Inr r, groups')"
  obtain res gs where sl: "step_loop c [] groups = (res, gs)" by (cases "step_loop c [] groups")
  from a sl have res: "res = Inr ()" "gs = groups'" and r: "r = optimizer_step groups'"
    by (auto simp: step_def split: sum.splits)
  from step_loop_regrouped[of c "[]" groups "()" groups'] sl res
  have "list_all2 (regrouped c) groups groups'" by auto
  with r show "r = optimizer_step groups'" "list_all2 (regrouped c) groups groups'" by simp_all
next
  assume "\<forall>ps \<in> set groups. \<forall>p \<in> set ps. grad p \<noteq> None"
  from step_loop_total[OF this, of c "[]"] obtain gs where "step_loop c [] groups = (Inr (), gs)"
    by blast
  then show "\<exists>groups'. step c optimizer_step groups = (Inr (optimizer_step groups'), groups')"
    by (simp add: step_def)
qed

theorem group_params_by_storage_partition_step_witness:
  "group_params_by_storage
     [example_param ''A'' 1 0 10, example_param ''B'' 2 0 10, example_param ''C'' 1 30 5]
     = [(1, [example_param ''A'' 1 0 10, example_param ''C'' 1 30 5]),
        (2, [example_param ''B'' 2 0 10])]
   \<and> (\<exists>groups'. step hd length
         [[example_param ''A'' 1 0 10, example_param ''B'' 2 0 10, example_param ''C'' 1 30 5]]
         = (Inr (length groups'), groups')
       \<and> list_all2 (regrouped hd)
           [[example_param ''A'' 1 0 10, example_param ''B'' 2 0 10,
             example_param ''C'' 1 30 5]] groups')"
proof -
  let ?ps = "[example_param ''A'' 1 0 10, example_param ''B'' 2 0 10, example_param ''C'' 1 30 5]"
  note t = group_params_by_storage_partition_step[of ?ps hd length "[?ps]"]
  have g: "\<forall>ps \<in> set [?ps]. \<forall>p \<in> set ps. grad p \<noteq> None"
    by (simp add: example_param_def)
  from t g obtain groups' where s: "step hd length [?ps] = (Inr (length groups'), groups')"
    by blast
  with t have "list_all2 (regrouped hd) [?ps] groups'" by blast
  moreover have "group_params_by_storage ?ps
     = [(1, [example_param ''A'' 1 0 10, example_param ''C'' 1 30 5]),
        (2, [example_param ''B'' 2 0 10])]"
    by (simp add: group_params_by_storage_def example_param_def)
  ultimately show ?thesis using s by blast
qed

section \<open>Communicators and initialization\<close>

lemma gen_root:
  "get_rank e = r \<Longrightarrow> gen_nccl_unique_id ct r e st =
     (Inr (generate_nccl_unique_id_str e (ids_generated st)),
      st\<lparr>ids_generated := Suc (ids_generated st),
         default_store := (default_store st)(unique_id_key ct r \<mapsto>
           generate_nccl_unique_id_str e (ids_generated st)),
         events := events st @ [StoreSet (unique_id_key ct r)
           (generate_nccl_unique_id_str e (ids_generated st))]\<rparr>)"
  by (simp add: gen_nccl_unique_id_def Let_def)

lemma gen_fetch:
  "get_rank e \<noteq> r \<Longrightarrow> gen_nccl_unique_id ct r e st =
     ((case default_store st (unique_id_key ct r) of None \<Rightarrow> Inl StoreTimeout | Some v \<Rightarrow> Inr v),
      st\<lparr>events := events st @ [StoreGet (unique_id_key ct r)]\<rparr>)"
  by (simp add: gen_nccl_unique_id_def Let_def split: option.splits)

lemma gen_returns:
  assumes "get_rank e = r \<or> default_store st (unique_id_key ct r) \<noteq> None"
  shows "\<exists>idstr. fst (gen_nccl_unique_id ct r e st) = Inr idstr"
  using assms by (cases "get_rank e = r") (auto simp: gen_root gen_fetch)

lemma inter_communicator:
  assumes "get_local_size e \<noteq> 0"
    "get_rank e = leader \<or> default_store st (unique_id_key ''bagua_inter_comm'' leader) \<noteq> None"
  shows "\<exists>idstr. fst (init_bagua_inter_communicator strm leader dev e st) =
     Inr (if get_rank e mod get_local_size e = leader
          then Some \<lparr>comm_rank = get_rank e div get_local_size e,
                     comm_nranks = get_world_size e div get_local_size e,
                     comm_device_id = (case dev of None \<Rightarrow> get_local_rank e | Some d \<Rightarrow> d),
                     stream_ptr = strm, nccl_unique_id_str = idstr, cuda_stream = strm\<rparr>
          else None)"
proof -
  obtain idstr where "fst (gen_nccl_unique_id ''bagua_inter_comm'' leader e st) = Inr idstr"
    using gen_returns[OF assms(2)] by blast
  then show ?thesis using assms(1)
    by (auto simp: init_bagua_inter_communicator_def Let_def split: prod.splits sum.splits)
qed

lemma intra_communicator:
  assumes "get_local_size e \<noteq> 0"
    "get_rank e = get_rank e div get_local_size e * get_local_size e
     \<or> default_store st (unique_id_key ''bagua_intra_comm''
          (get_rank e div get_local_size e * get_local_size e)) \<noteq> None"
  shows "\<exists>idstr. fst (init_bagua_intra_communicator strm dev e st) =
     Inr \<lparr>comm_rank = get_rank e mod get_local_size e,
          comm_nranks = get_local_size e,
          comm_device_id = (case dev of None \<Rightarrow> get_local_rank e | Some d \<Rightarrow> d),
          stream_ptr = strm, nccl_unique_id_str = idstr, cuda_stream = strm\<rparr>"
proof -
  obtain idstr where "fst (gen_nccl_unique_id ''bagua_intra_comm''
      (get_rank e div get_local_size e * get_local_size e) e st) = Inr idstr"
    using gen_returns[OF assms(2)] by blast
  then show ?thesis using assms(1)
    by (auto simp: init_bagua_intra_communicator_def Let_def split: prod.splits sum.splits)
qed

lemma global_communicator:
  assumes "get_rank e = 0 \<or> default_store st (unique_id_key ''bagua_global_comm'' 0) \<noteq> None"
  shows "\<exists>idstr. fst (init_bagua_communicator strm dev e st) =
     Inr \<lparr>comm_rank = get_rank e,
          comm_nranks = get_world_size e,
          comm_device_id = (case dev of None \<Rightarrow> get_local_rank e | Some d \<Rightarrow> d),
          stream_ptr = strm, nccl_unique_id_str = idstr, cuda_stream = strm\<rparr>"
proof -
  obtain idstr where "fst (gen_nccl_unique_id ''bagua_global_comm'' 0 e st) = Inr idstr"
    using gen_returns[OF assms] by blast
  then show ?thesis
    by (auto simp: init_bagua_communicator_def Let_def split: prod.splits sum.splits)
qed

text \<open>
  C4. Where the local size is not zero and the rendezvous returns (the process is the
  root of the exchange, or the token is in the store): the inter-node constructor gives
  no communicator to a process whose rank modulo the local size is not the leader
  offset, and to the others a communicator of rank \<open>R div L\<close> and size \<open>W div L\<close>;
  the intra-node communicator has rank \<open>R mod L\<close> and size \<open>L\<close>; the global
  communicator has rank \<open>R\<close> and size \<open>W\<close>. For \<open>W = 8\<close>, \<open>L = 4\<close> and leader
  offset 0, the ranks 0 and 4 get the inter-node ranks 0 and 1 in a communicator of size
  2, and the ranks 1, 2, 3, 5, 6, 7 get none.
\<close>

theorem communicator_topology:
  "(get_local_size e \<noteq> 0
      \<and> (get_rank e = leader
           \<or> default_store st (unique_id_key ''bagua_inter_comm'' leader) \<noteq> None) \<longrightarrow>
      (get_rank e mod get_local_size e \<noteq> leader \<longrightarrow>
         fst (init_bagua_inter_communicator strm leader dev e st) = Inr None)
      \<and> (get_rank e mod get_local_size e = leader \<longrightarrow>
           (\<exists>c. fst (init_bagua_inter_communicator strm leader dev e st) = Inr (Some c)
              \<and> comm_rank c = get_rank e div get_local_size e
              \<and> comm_nranks c = get_world_size e div get_local_size e)))
   \<and> (get_local_size e \<noteq> 0
        \<and> (get_rank e = get_rank e div get_local_size e * get_local_size e
             \<or> default_store st (unique_id_key ''bagua_intra_comm''
                  (get_rank e div get_local_size e * get_local_size e)) \<noteq> None) \<longrightarrow>
        (\<exists>c. fst (init_bagua_intra_communicator strm dev e st) = Inr c
           \<and> comm_rank c = get_rank e mod get_local_size e
           \<and> comm_nranks c = get_local_size e))
   \<and> (get_rank e = 0 \<or> default_store st (unique_id_key ''bagua_global_comm'' 0) \<noteq> None \<longrightarrow>
        (\<exists>c. fst (init_bagua_communicator strm dev e st) = Inr c
           \<and> comm_rank c = get_rank e \<and> comm_nranks c = get_world_size e))
   \<and> (get_world_size e = 8 \<and> get_local_size e = 4
        \<and> (get_rank e = 0 \<or> default_store st (unique_id_key ''bagua_inter_comm'' 0) \<noteq> None) \<longrightarrow>
        (get_rank e = 0 \<longrightarrow>
           (\<exists>c. fst (init_bagua_inter_communicator strm 0 dev e st) = Inr (Some c)
              \<and> comm_rank c = 0 \<and> comm_nranks c = 2))
        \<and> (get_rank e = 4 \<longrightarrow>
           (\<exists>c. fst (init_bagua_inter_communicator strm 0 dev e st) = Inr (Some c)
              \<and> comm_rank c = 1 \<and> comm_nranks c = 2))
        \<and> (get_rank e \<in> {1, 2, 3, 5, 6, 7} \<longrightarrow>
             fst (init_bagua_inter_communicator strm 0 dev e st) = Inr None))"
proof (intro conjI impI)
  assume a: "get_local_size e \<noteq> 0
      \<and> (get_rank e = leader
           \<or> default_store st (unique_id_key ''bagua_inter_comm'' leader) \<noteq> None)"
  from a inter_communicator[of e leader st strm dev]
  show "get_rank e mod get_local_size e \<noteq> leader \<Longrightarrow>
         fst (init_bagua_inter_communicator strm leader dev e st) = Inr None"
    by auto
  from a inter_communicator[of e leader st strm dev]
  show "get_rank e mod get_local_size e = leader \<Longrightarrow>
     \<exists>c. fst (init_bagua_inter_communicator strm leader dev e st) = Inr (Some c)
              \<and> comm_rank c = get_rank e div get_local_size e
              \<and> comm_nranks c = get_world_size e div get_local_size e"
    by auto
next
  assume "get_local_size e \<noteq> 0
        \<and> (get_rank e = get_rank e div get_local_size e * get_local_size e
             \<or> default_store st (unique_id_key ''bagua_intra_comm''
                  (get_rank e div get_local_size e * get_local_size e)) \<noteq> None)"
  with intra_communicator[of e st strm dev]
  show "\<exists>c. fst (init_bagua_intra_communicator strm dev e st) = Inr c
           \<and> comm_rank c = get_rank e mod get_local_size e
           \<and> comm_nranks c = get_local_size e"
    by auto
next
  assume "get_rank e = 0 \<or> default_store st (unique_id_key ''bagua_global_comm'' 0) \<noteq> None"
  with global_communicator[of e st strm dev]
  show "\<exists>c. fst (init_bagua_communicator strm dev e st) = Inr c
           \<and> comm_rank c = get_rank e \<and> comm_nranks c = get_world_size e"
    by auto
next
  assume a: "get_world_size e = 8 \<and> get_local_size e = 4
        \<and> (get_rank e = 0 \<or> default_store st (unique_id_key ''bagua_inter_comm'' 0) \<noteq> None)"
  then have l: "get_local_size e \<noteq> 0" by simp
  from a have r: "get_rank e = 0 \<or> default_store st (unique_id_key ''bagua_inter_comm'' 0) \<noteq> None"
    by simp
  note i = inter_communicator[OF l r, of strm dev]
  from i a show "get_rank e = 0 \<Longrightarrow>
           (\<exists>c. fst (init_bagua_inter_communicator strm 0 dev e st) = Inr (Some c)
              \<and> comm_rank c = 0 \<and> comm_nranks c = 2)" by auto
  from i a show "get_rank e = 4 \<Longrightarrow>
           (\<exists>c. fst (init_bagua_inter_communicator strm 0 dev e st) = Inr (Some c)
              \<and> comm_rank c = 1 \<and> comm_nranks c = 2)" by auto
  from i a show "get_rank e \<in> {1, 2, 3, 5, 6, 7} \<Longrightarrow>
             fst (init_bagua_inter_communicator strm 0 dev e st) = Inr None" by auto
qed

lemmas key_eval = unique_id_key_def str_int_def str_nat.simps

theorem communicator_topology_witness:
  "get_local_size (example_env 4 8 4) \<noteq> 0
   \<and> default_store
        (initial_proc\<lparr>default_store :=
           [unique_id_key ''bagua_inter_comm'' 0 \<mapsto> ''a'',
            unique_id_key ''bagua_global_comm'' 0 \<mapsto> ''b'']\<rparr>)
        (unique_id_key ''bagua_inter_comm'' 0) \<noteq> None
   \<and> (\<exists>c. fst (init_bagua_inter_communicator (Stream (- 1)) 0 None (example_env 4 8 4)
               (initial_proc\<lparr>default_store :=
                  [unique_id_key ''bagua_inter_comm'' 0 \<mapsto> ''a'',
                   unique_id_key ''bagua_global_comm'' 0 \<mapsto> ''b'']\<rparr>)) = Inr (Some c)
          \<and> comm_rank c = 1 \<and> comm_nranks c = 2)
   \<and> (\<exists>c. fst (init_bagua_intra_communicator (Stream (- 1)) None (example_env 4 8 4)
               (initial_proc\<lparr>default_store :=
                  [unique_id_key ''bagua_inter_comm'' 0 \<mapsto> ''a'',
                   unique_id_key ''bagua_global_comm'' 0 \<mapsto> ''b'']\<rparr>)) = Inr c
          \<and> comm_rank c = 0 \<and> comm_nranks c = 4)
   \<and> (\<exists>c. fst (init_bagua_communicator (Stream (- 1)) None (example_env 4 8 4)
               (initial_proc\<lparr>default_store :=
                  [unique_id_key ''bagua_inter_comm'' 0 \<mapsto> ''a'',
                   unique_id_key ''bagua_global_comm'' 0 \<mapsto> ''b'']\<rparr>)) = Inr c
          \<and> comm_rank c = 4 \<and> comm_nranks c = 8)"
proof -
  let ?e = "example_env 4 8 4"
  let ?st = "initial_proc\<lparr>default_store :=
           [unique_id_key ''bagua_inter_comm'' 0 \<mapsto> ''a'',
            unique_id_key ''bagua_global_comm'' 0 \<mapsto> ''b'']\<rparr>"
  have e: "get_rank ?e = 4" "get_world_size ?e = 8" "get_local_size ?e = 4"
    by (simp_all add: example_env_def)
  have k: "default_store ?st (unique_id_key ''bagua_inter_comm'' 0) \<noteq> None"
    "default_store ?st (unique_id_key ''bagua_global_comm'' 0) \<noteq> None"
    by (simp_all add: initial_proc_def)
  note t = communicator_topology[of ?e 0 ?st "Stream (- 1)" None]
  from t e k show ?thesis by simp
qed

lemma gen_never_configuration_error:
  "fst (gen_nccl_unique_id ct r e st) \<noteq> Inl ConfigurationError"
  by (cases "get_rank e = r") (auto simp: gen_root gen_fetch split: option.splits)

lemma inter_never_configuration_error:
  "fst (init_bagua_inter_communicator strm leader dev e st) \<noteq> Inl ConfigurationError"
  using gen_never_configuration_error[of "''bagua_inter_comm''" leader e st]
  by (auto simp: init_bagua_inter_communicator_def Let_def split: prod.splits sum.splits)

text \<open>
  C5, as the code has it. The inter-node constructor never fails with a configuration
  error. When the world size is not divisible by the local size (which is not zero), a
  member whose rendezvous returns gets a communicator of size \<open>W div L\<close>, rounded
  down: that size times the local size is not the world size.
\<close>

theorem indivisible_world_size_truncates:
  "fst (init_bagua_inter_communicator strm leader dev e st) \<noteq> Inl ConfigurationError
   \<and> (\<not> get_local_size e dvd get_world_size e \<and> get_local_size e \<noteq> 0
        \<and> get_rank e mod get_local_size e = leader
        \<and> (get_rank e = leader
             \<or> default_store st (unique_id_key ''bagua_inter_comm'' leader) \<noteq> None) \<longrightarrow>
        (\<exists>c. fst (init_bagua_inter_communicator strm leader dev e st) = Inr (Some c)
           \<and> comm_nranks c = get_world_size e div get_local_size e
           \<and> comm_nranks c * get_local_size e \<noteq> get_world_size e))"
proof (intro conjI impI)
  show "fst (init_bagua_inter_communicator strm leader dev e st) \<noteq> Inl ConfigurationError"
    by (rule inter_never_configuration_error)
next
  assume a: "\<not> get_local_size e dvd get_world_size e \<and> get_local_size e \<noteq> 0
        \<and> get_rank e mod get_local_size e = leader
        \<and> (get_rank e = leader
             \<or> default_store st (unique_id_key ''bagua_inter_comm'' leader) \<noteq> None)"
  then have "get_world_size e div get_local_size e * get_local_size e \<noteq> get_world_size e"
    by (metis dvd_triv_right)
  with a inter_communicator[of e leader st strm dev]
  show "\<exists>c. fst (init_bagua_inter_communicator strm leader dev e st) = Inr (Some c)
           \<and> comm_nranks c = get_world_size e div get_local_size e
           \<and> comm_nranks c * get_local_size e \<noteq> get_world_size e"
    by auto
qed

theorem indivisible_world_size_truncates_witness:
  "\<not> get_local_size (example_env 0 10 4) dvd get_world_size (example_env 0 10 4)
   \<and> (\<exists>c. fst (init_bagua_inter_communicator (Stream (- 1)) 0 None (example_env 0 10 4)
               initial_proc) = Inr (Some c)
          \<and> comm_nranks c = 2 \<and> comm_nranks c * 4 \<noteq> 10)"
proof -
  let ?e = "example_env 0 10 4"
  have e: "get_rank ?e = 0" "get_world_size ?e = 10" "get_local_size ?e = 4"
    by (simp_all add: example_env_def)
  note t = indivisible_world_size_truncates[of "Stream (- 1)" 0 None ?e initial_proc]
  from t e show ?thesis by simp
qed

theorem indivisible_world_size_counterexample:
  "\<not> (4::int) dvd 10
   \<and> get_world_size (example_env 0 10 4) = 10 \<and> get_local_size (example_env 0 10 4) = 4
   \<and> fst (init_bagua_inter_communicator (Stream (- 1)) 0 None (example_env 0 10 4) initial_proc)
       = Inr (Some \<lparr>comm_rank = 0, comm_nranks = 2, comm_device_id = 0,
                    stream_ptr = Stream (- 1), nccl_unique_id_str = ''id0'',
                    cuda_stream = Stream (- 1)\<rparr>)
   \<and> fst (init_bagua_inter_communicator (Stream (- 1)) 0 None (example_env 0 10 4) initial_proc)
       \<noteq> Inl ConfigurationError"
  by (simp add: init_bagua_inter_communicator_def gen_nccl_unique_id_def example_env_def
      initial_proc_def Let_def str_nat.simps)

text \<open>
  C9. The inter-node constructor does the rendezvous before it looks at the membership.
  A process whose rank is not the leader rank gets the token from the store, and when
  the token is not there the call does not return, member or not; the process whose
  rank is the leader rank generates the token and sets it in the store. The constructor
  returns no communicator only after the rendezvous has returned, and then does so
  exactly for the processes that are not members.
\<close>

theorem inter_rendezvous_before_membership:
  "(get_rank e \<noteq> leader \<and> default_store st (unique_id_key ''bagua_inter_comm'' leader) = None \<longrightarrow>
      init_bagua_inter_communicator strm leader dev e st
        = (Inl StoreTimeout,
           st\<lparr>events := events st @ [StoreGet (unique_id_key ''bagua_inter_comm'' leader)]\<rparr>))
   \<and> (get_rank e \<noteq> leader \<longrightarrow>
        snd (init_bagua_inter_communicator strm leader dev e st)
          = st\<lparr>events := events st @ [StoreGet (unique_id_key ''bagua_inter_comm'' leader)]\<rparr>)
   \<and> (get_rank e = leader \<longrightarrow>
        snd (init_bagua_inter_communicator strm leader dev e st)
          = st\<lparr>ids_generated := Suc (ids_generated st),
               default_store := (default_store st)
                 (unique_id_key ''bagua_inter_comm'' leader
                    \<mapsto> generate_nccl_unique_id_str e (ids_generated st)),
               events := events st @
                 [StoreSet (unique_id_key ''bagua_inter_comm'' leader)
                    (generate_nccl_unique_id_str e (ids_generated st))]\<rparr>)
   \<and> (fst (init_bagua_inter_communicator strm leader dev e st) = Inr None \<longrightarrow>
        get_rank e mod get_local_size e \<noteq> leader
        \<and> (get_rank e = leader
             \<or> default_store st (unique_id_key ''bagua_inter_comm'' leader) \<noteq> None))
   \<and> (get_local_size e \<noteq> 0 \<and> get_rank e mod get_local_size e \<noteq> leader
        \<and> (get_rank e = leader
             \<or> default_store st (unique_id_key ''bagua_inter_comm'' leader) \<noteq> None) \<longrightarrow>
        fst (init_bagua_inter_communicator strm leader dev e st) = Inr None)"
proof (cases "get_rank e = leader")
  case True
  then show ?thesis
    by (auto simp: init_bagua_inter_communicator_def gen_root Let_def split: if_splits)
next
  case False
  then show ?thesis
    by (auto simp: init_bagua_inter_communicator_def gen_fetch Let_def
        split: if_splits option.splits)
qed

theorem inter_rendezvous_before_membership_witness:
  "get_rank (example_env 1 8 4) \<noteq> 0
   \<and> get_rank (example_env 1 8 4) mod get_local_size (example_env 1 8 4) \<noteq> 0
   \<and> init_bagua_inter_communicator (Stream (- 1)) 0 None (example_env 1 8 4) initial_proc
       = (Inl StoreTimeout,
          initial_proc\<lparr>events := [StoreGet ''bagua_inter_comm-0-unique_id'']\<rparr>)
   \<and> fst (init_bagua_inter_communicator (Stream (- 1)) 0 None (example_env 1 8 4)
        (initial_proc\<lparr>default_store := [''bagua_inter_comm-0-unique_id'' \<mapsto> ''a'']\<rparr>))
       = Inr None
   \<and> events (snd (init_bagua_inter_communicator (Stream (- 1)) 0 None (example_env 1 8 4)
        (initial_proc\<lparr>default_store := [''bagua_inter_comm-0-unique_id'' \<mapsto> ''a'']\<rparr>)))
       = [StoreGet ''bagua_inter_comm-0-unique_id'']"
proof -
  let ?e = "example_env 1 8 4"
  let ?st = "initial_proc\<lparr>default_store := [''bagua_inter_comm-0-unique_id'' \<mapsto> ''a'']\<rparr>"
  have e: "get_rank ?e = 1" "get_local_size ?e = 4" by (simp_all add: example_env_def)
  have k: "unique_id_key ''bagua_inter_comm'' 0 = ''bagua_inter_comm-0-unique_id''"
    by (simp add: key_eval)
  have s: "default_store initial_proc ''bagua_inter_comm-0-unique_id'' = None"
    "default_store ?st ''bagua_inter_comm-0-unique_id'' \<noteq> None"
    "events initial_proc = []" "events ?st = []"
    by (simp_all add: initial_proc_def)
  note t1 = inter_rendezvous_before_membership[of ?e 0 initial_proc "Stream (- 1)" None]
  note t2 = inter_rendezvous_before_membership[of ?e 0 ?st "Stream (- 1)" None]
  from t1 e k s have a: "init_bagua_inter_communicator (Stream (- 1)) 0 None ?e initial_proc
       = (Inl StoreTimeout,
          initial_proc\<lparr>events := [StoreGet ''bagua_inter_comm-0-unique_id'']\<rparr>)"
    by simp
  from t2 e k s have b: "fst (init_bagua_inter_communicator (Stream (- 1)) 0 None ?e ?st) = Inr None"
    by simp
  from t2 e k s have c: "events (snd (init_bagua_inter_communicator (Stream (- 1)) 0 None ?e ?st))
       = [StoreGet ''bagua_inter_comm-0-unique_id'']"
    by simp
  from a b c e show ?thesis by simp
qed

lemmas init_eval = init_process_group_def is_initialized_def BaguaGlobalState_def
  init_bagua_inter_communicator_def init_bagua_intra_communicator_def init_bagua_communicator_def
  gen_nccl_unique_id_def example_env_def initial_proc_def Let_def

lemma init_repeated:
  "is_initialized st \<Longrightarrow> init_process_group e st = (Inl RepeatedInitializationError, st)"
  by (simp add: init_process_group_def)

lemma init_sets: "init_process_group e st = (Inr u, st') \<Longrightarrow> is_initialized st'"
  by (auto simp: init_process_group_def is_initialized_def Let_def
      split: if_splits prod.splits sum.splits)

text \<open>
  C7. In an initialized process \<open>init_process_group\<close> raises
  \<open>RepeatedInitializationError\<close> and leaves the state of the process as it was; so does
  a second call after a first call that has returned, whatever the environment.
\<close>

theorem second_initialization_fails:
  "(is_initialized st \<longrightarrow> init_process_group e st = (Inl RepeatedInitializationError, st))
   \<and> (init_process_group e st = (Inr (), st') \<longrightarrow>
        init_process_group e' st' = (Inl RepeatedInitializationError, st'))"
  using init_repeated init_sets by blast

theorem second_initialization_fails_witness:
  "fst (init_process_group (example_env 0 1 1) initial_proc) = Inr ()
   \<and> init_process_group (example_env 0 1 1)
        (snd (init_process_group (example_env 0 1 1) initial_proc))
       = (Inl RepeatedInitializationError,
          snd (init_process_group (example_env 0 1 1) initial_proc))"
proof -
  have f: "fst (init_process_group (example_env 0 1 1) initial_proc) = Inr ()"
    by (simp add: init_eval)
  then have "init_process_group (example_env 0 1 1) initial_proc
      = (Inr (), snd (init_process_group (example_env 0 1 1) initial_proc))"
    by (metis prod.collapse)
  with second_initialization_fails
    [of initial_proc "example_env 0 1 1" "snd (init_process_group (example_env 0 1 1) initial_proc)"
        "example_env 0 1 1"]
    f show ?thesis by blast
qed

lemmas collective_eval = broadcast_def allreduce_def broadcast_coalesced_def
  allreduce_coalesced_def resolve_comm_def get_global_state_def

text \<open>
  C8, as the code has it. Before initialization \<open>_get_global_state\<close> returns \<open>None\<close>
  and does not fail; \<open>get_bagua_hyperparameters\<close>,
  \<open>get_hyperparameters_service_client\<close> and the four collectives called without a
  communicator on tensors that are not on the host fail with \<open>AttributeError\<close>, and
  leave the state of the process as it was.
\<close>

theorem uninitialized_access:
  "\<not> is_initialized st \<longrightarrow>
     get_global_state st = None
     \<and> get_bagua_hyperparameters st = Inl AttributeError
     \<and> get_hyperparameters_service_client st = Inl AttributeError
     \<and> (device t \<noteq> CPU \<longrightarrow>
          broadcast nt t r None st = (Inl AttributeError, st)
          \<and> allreduce nt t average None st = (Inl AttributeError, st))
     \<and> ((\<forall>t \<in> set ts. device t \<noteq> CPU) \<longrightarrow>
          broadcast_coalesced nt ts r None st = (Inl AttributeError, st)
          \<and> allreduce_coalesced nt ts None average st = (Inl AttributeError, st))"
  by (auto simp: is_initialized_def get_bagua_hyperparameters_def
      get_hyperparameters_service_client_def collective_eval)

theorem uninitialized_access_witness:
  "\<not> is_initialized initial_proc
   \<and> device (example_tensor (CUDA 0) [1, 2]) \<noteq> CPU
   \<and> get_global_state initial_proc = None
   \<and> get_bagua_hyperparameters initial_proc = Inl AttributeError
   \<and> get_hyperparameters_service_client initial_proc = Inl AttributeError
   \<and> broadcast (members []) (example_tensor (CUDA 0) [1, 2]) 0 None initial_proc
       = (Inl AttributeError, initial_proc)
   \<and> allreduce (members []) (example_tensor (CUDA 0) [1, 2]) True None initial_proc
       = (Inl AttributeError, initial_proc)
   \<and> broadcast_coalesced (members []) [example_tensor (CUDA 0) [1, 2]] 0 None initial_proc
       = (Inl AttributeError, initial_proc)
   \<and> allreduce_coalesced (members []) [example_tensor (CUDA 0) [1, 2]] None True initial_proc
       = (Inl AttributeError, initial_proc)"
proof -
  have i: "\<not> is_initialized initial_proc" by (simp add: is_initialized_def initial_proc_def)
  have d: "device (example_tensor (CUDA 0) [1, 2]) \<noteq> CPU" by (simp add: example_tensor_def)
  have ds: "\<forall>t \<in> set [example_tensor (CUDA 0) [1, 2]]. device t \<noteq> CPU"
    by (simp add: example_tensor_def)
  from uninitialized_access
    [of initial_proc "example_tensor (CUDA 0) [1, 2]" "members []" 0 True
        "[example_tensor (CUDA 0) [1, 2]]"] i d ds
  show ?thesis by blast
qed

theorem uninitialized_access_counterexample:
  "\<not> is_initialized initial_proc
   \<and> get_global_state initial_proc = None
   \<and> get_bagua_hyperparameters initial_proc = Inl AttributeError
   \<and> get_bagua_hyperparameters initial_proc \<noteq> Inl NotInitializedError
   \<and> fst (allreduce (members []) (example_tensor (CUDA 0) [1, 2]) True None initial_proc)
       = Inl AttributeError
   \<and> fst (allreduce (members []) (example_tensor (CUDA 0) [1, 2]) True None initial_proc)
       \<noteq> Inl NotInitializedError"
  by (simp add: is_initialized_def initial_proc_def get_global_state_def
      get_bagua_hyperparameters_def allreduce_def resolve_comm_def example_tensor_def)

text \<open>
  C6, as the code has it. A broadcast or an all-reduce of a tensor on the host, and a
  coalesced broadcast or all-reduce of a list with a tensor on the host, fails the
  \<open>assert\<close> with \<open>AssertionError\<close>, with or without a communicator, and leaves the
  state of the process as it was: no stream operation and no collective is issued.
\<close>

theorem host_tensor_rejected:
  "(device t = CPU \<longrightarrow>
      broadcast nt t r comm st = (Inl AssertionError, st)
      \<and> allreduce nt t average comm st = (Inl AssertionError, st))
   \<and> ((\<exists>t \<in> set ts. device t = CPU) \<longrightarrow>
        broadcast_coalesced nt ts r comm st = (Inl AssertionError, st)
        \<and> allreduce_coalesced nt ts comm average st = (Inl AssertionError, st))"
  by (auto simp: collective_eval)

theorem host_tensor_rejected_witness:
  "device (example_tensor CPU [1, 2]) = CPU
   \<and> broadcast (members []) (example_tensor CPU [1, 2]) 0 None initial_proc
       = (Inl AssertionError, initial_proc)
   \<and> allreduce (members []) (example_tensor CPU [1, 2]) True None initial_proc
       = (Inl AssertionError, initial_proc)
   \<and> broadcast_coalesced (members [])
        [example_tensor (CUDA 0) [3], example_tensor CPU [1, 2]] 0 None initial_proc
       = (Inl AssertionError, initial_proc)
   \<and> allreduce_coalesced (members [])
        [example_tensor (CUDA 0) [3], example_tensor CPU [1, 2]] None True initial_proc
       = (Inl AssertionError, initial_proc)"
proof -
  have d: "device (example_tensor CPU [1, 2]) = CPU" by (simp add: example_tensor_def)
  then have ds: "\<exists>t \<in> set [example_tensor (CUDA 0) [3], example_tensor CPU [1, 2]]. device t = CPU"
    by simp
  from host_tensor_rejected
    [of "example_tensor CPU [1, 2]" "members []" 0 None initial_proc True
        "[example_tensor (CUDA 0) [3], example_tensor CPU [1, 2]]"] d ds
  show ?thesis by blast
qed

theorem host_tensor_rejected_counterexample:
  "device (example_tensor CPU [1, 2]) = CPU
   \<and> fst (broadcast (members []) (example_tensor CPU [1, 2]) 0 None initial_proc)
       = Inl AssertionError
   \<and> fst (broadcast (members []) (example_tensor CPU [1, 2]) 0 None initial_proc)
       \<noteq> Inl InvalidDeviceError
   \<and> fst (allreduce (members []) (example_tensor CPU [1, 2]) True None initial_proc)
       \<noteq> Inl InvalidDeviceError"
  by (simp add: broadcast_def allreduce_def example_tensor_def)

section \<open>Coalescing and all-reduce\<close>

lemma unflatten_concat: "unflatten (concat (map elems ts) @ rest) ts = map elems ts"
  by (induction ts arbitrary: rest) auto

lemma copy_own_elems:
  "map (\<lambda>(buf, synced). copy_tensor buf synced) (zip ts (map elems ts)) = ts"
  by (induction ts) (auto simp: copy_tensor_def)

lemma scatter_concat: "scatter (concat (map elems ts)) ts = ts"
proof -
  have "unflatten (concat (map elems ts)) ts = map elems ts"
    using unflatten_concat[of ts "[]"] by simp
  then show ?thesis
    by (simp add: scatter_def copy_own_elems)
qed

lemma flatten_same_device:
  assumes "\<forall>t \<in> set ts. device t = d" "d \<noteq> CPU"
  shows "flatten ts = Inr (concat (map elems ts))"
  using assms by (auto simp: flatten_def)

lemma flatten_Inr: "flatten ts = Inr buf \<Longrightarrow> buf = concat (map elems ts)"
  by (auto simp: flatten_def split: if_splits)

text \<open>
  C3. Whenever \<open>flatten\<close> returns a buffer for a list of tensors, \<open>scatter\<close> of that
  buffer into the same tensors gives the tensors back, each with its own elements,
  shape and device. For tensors on one device that is not the host \<open>flatten\<close> does
  return, the concatenation of their elements; and a coalesced broadcast whose
  collective leaves the buffer as it is returns the tensors unchanged.
\<close>

theorem scatter_flatten_roundtrip:
  "(flatten ts = Inr buf \<longrightarrow> scatter buf ts = ts)
   \<and> ((\<forall>t \<in> set ts. device t = d) \<and> d \<noteq> CPU \<longrightarrow>
        flatten ts = Inr (concat (map elems ts))
        \<and> scatter (concat (map elems ts)) ts = ts
        \<and> (comm_broadcast nt c (concat (map elems ts)) r = concat (map elems ts) \<longrightarrow>
             fst (broadcast_coalesced nt ts r (Some c) st) = Inr ts))"
proof (intro conjI impI)
  assume "flatten ts = Inr buf"
  then have "buf = concat (map elems ts)" by (rule flatten_Inr)
  then show "scatter buf ts = ts" by (simp add: scatter_concat)
next
  assume a: "(\<forall>t \<in> set ts. device t = d) \<and> d \<noteq> CPU"
  then show f: "flatten ts = Inr (concat (map elems ts))" using flatten_same_device by blast
  show "scatter (concat (map elems ts)) ts = ts" by (rule scatter_concat)
  assume "comm_broadcast nt c (concat (map elems ts)) r = concat (map elems ts)"
  moreover have "\<not> (\<exists>t \<in> set ts. device t = CPU)" using a by auto
  ultimately show "fst (broadcast_coalesced nt ts r (Some c) st) = Inr ts"
    using f by (simp add: broadcast_coalesced_def resolve_comm_def Let_def scatter_concat)
qed


theorem scatter_flatten_roundtrip_witness:
  "flatten [example_tensor (CUDA 0) [1, 2], example_tensor (CUDA 0) [3]]
     = Inr [Fin 1, Fin 2, Fin 3]
   \<and> scatter [Fin 1, Fin 2, Fin 3] [example_tensor (CUDA 0) [1, 2], example_tensor (CUDA 0) [3]]
       = [example_tensor (CUDA 0) [1, 2], example_tensor (CUDA 0) [3]]"
proof -
  let ?ts = "[example_tensor (CUDA 0) [1, 2], example_tensor (CUDA 0) [3]]"
  have d: "(\<forall>t \<in> set ?ts. device t = CUDA 0) \<and> CUDA 0 \<noteq> CPU"
    by (simp add: example_tensor_def)
  have c: "concat (map elems ?ts) = [Fin 1, Fin 2, Fin 3]" by (simp add: example_tensor_def)
  from scatter_flatten_roundtrip[of ?ts "[Fin 1, Fin 2, Fin 3]" "CUDA 0"] d
  have "flatten ?ts = Inr (concat (map elems ?ts))
        \<and> scatter (concat (map elems ?ts)) ?ts = ?ts"
    by blast
  then show ?thesis by (simp only: c)
qed

lemma map2_add_Fin: "length a = length b \<Longrightarrow>
  map2 add_scalar (map Fin a) (map Fin b) = map Fin (map2 (+) a b)"
  by (induction a b rule: list_induct2) auto

lemma sum_Cons_shift:
  "(\<Sum>i<Suc m. (b # bs) ! i ! j) = b ! j + (\<Sum>i<m. bs ! i ! (j::nat))"
  for b :: "real list"
  by (simp add: sum.lessThan_Suc_shift del: sum.lessThan_Suc)

lemma foldl_add_Fin:
  assumes "length a = n" "\<forall>v \<in> set bs. length v = n"
  shows "foldl (\<lambda>acc v. map2 add_scalar acc v) (map Fin a) (map (map Fin) bs)
         = map (\<lambda>j. Fin (a ! j + (\<Sum>i<length bs. bs ! i ! j))) [0..<n]"
  using assms
proof (induction bs arbitrary: a)
  case Nil
  then show ?case by (auto intro!: nth_equalityI)
next
  case (Cons b bs)
  have lb: "length b = n" using Cons.prems by simp
  have l: "length (map2 (+) a b) = n" using Cons.prems lb by simp
  have "foldl (\<lambda>acc v. map2 add_scalar acc v) (map Fin a) (map (map Fin) (b # bs))
      = foldl (\<lambda>acc v. map2 add_scalar acc v) (map Fin (map2 (+) a b)) (map (map Fin) bs)"
    using Cons.prems lb by (simp add: map2_add_Fin)
  also have "\<dots> = map (\<lambda>j. Fin (map2 (+) a b ! j + (\<Sum>i<length bs. bs ! i ! j))) [0..<n]"
    using Cons.IH[OF l] Cons.prems by simp
  also have "\<dots> = map (\<lambda>j. Fin (a ! j + (\<Sum>i<length (b # bs). (b # bs) ! i ! j))) [0..<n]"
    using Cons.prems lb by (simp add: sum_Cons_shift add.assoc del: sum.lessThan_Suc)
  finally show ?case .
qed

lemma collective_sum_Fin:
  assumes "vs \<noteq> []" "\<forall>v \<in> set vs. length v = n"
  shows "collective_sum (map (map Fin) vs) = map (\<lambda>j. Fin (\<Sum>i<length vs. vs ! i ! j)) [0..<n]"
proof (cases vs)
  case Nil
  with assms show ?thesis by simp
next
  case (Cons a bs)
  then have "length a = n" "\<forall>v \<in> set bs. length v = n" using assms by auto
  from foldl_add_Fin[OF this] Cons show ?thesis
    by (simp add: collective_sum_def sum_Cons_shift del: sum.lessThan_Suc)
qed

lemma members_allreduce:
  assumes "r < length vs" "\<forall>v \<in> set vs. length v = n" "comm_rank c = int r"
  shows "comm_allreduce (members (map (map Fin) vs)) c (map Fin (vs ! r))
         = map (\<lambda>j. Fin (\<Sum>i<length vs. vs ! i ! j)) [0..<n]"
proof -
  have "(map (map Fin) vs)[r := map Fin (vs ! r)] = map (map Fin) vs"
    using assms(1) by (intro nth_equalityI) (auto simp: nth_list_update)
  moreover have "vs \<noteq> []" using assms(1) by auto
  ultimately show ?thesis using assms collective_sum_Fin[of vs n]
    by (simp add: members_def)
qed

lemma length_unflatten: "length (unflatten buf ts) = length ts"
  by (induction ts arbitrary: buf) auto

lemma elems_scatter: "map elems (scatter buf ts) = unflatten buf ts"
proof -
  have "length ss = length ts \<Longrightarrow>
        map elems (map (\<lambda>(b, s). copy_tensor b s) (zip ts ss)) = ss" for ss
    by (induction ts ss rule: list_induct2') (auto simp: copy_tensor_def)
  then show ?thesis by (simp add: scatter_def length_unflatten)
qed

lemma concat_unflatten:
  "concat (unflatten buf ts) = take (length (concat (map elems ts))) buf"
  by (induction ts arbitrary: buf) (auto simp: take_add)

lemma concat_scatter:
  "length buf = length (concat (map elems ts)) \<Longrightarrow> concat (map elems (scatter buf ts)) = buf"
  by (simp add: elems_scatter concat_unflatten)

lemma allreduce_members:
  assumes "r < length vs" "\<forall>v \<in> set vs. length v = n" "comm_rank c = int r"
    "comm_nranks c = int (length vs)" "device t \<noteq> CPU" "elems t = map Fin (vs ! r)"
  shows "allreduce (members (map (map Fin) vs)) t average (Some c) st =
     (Inr (t\<lparr>elems := map (\<lambda>j. Fin (if average
                                      then (\<Sum>i<length vs. vs ! i ! j) / real (length vs)
                                      else (\<Sum>i<length vs. vs ! i ! j))) [0..<n]\<rparr>),
      st\<lparr>events := events st @ [RecordEvent CurrentStream, WaitEvent (cuda_stream c),
                                 CommAllreduce c n, Synchronize]\<rparr>)"
proof -
  have N: "length vs \<noteq> 0" using assms(1) by auto
  have n: "length (vs ! r) = n" using assms(1,2) by auto
  note m = members_allreduce[OF assms(1-3)]
  show ?thesis
    using assms(4-6) m n N
    by (simp add: allreduce_def resolve_comm_def stream_order_def issue_def Let_def comp_def)
qed

lemma allreduce_coalesced_members:
  assumes "r < length vs" "\<forall>v \<in> set vs. length v = n" "comm_rank c = int r"
    "comm_nranks c = int (length vs)" "\<forall>t \<in> set ts. device t = d" "d \<noteq> CPU"
    "concat (map elems ts) = map Fin (vs ! r)"
  shows "allreduce_coalesced (members (map (map Fin) vs)) ts (Some c) average st =
     (Inr (scatter (map (\<lambda>j. Fin (if average
                                      then (\<Sum>i<length vs. vs ! i ! j) / real (length vs)
                                      else (\<Sum>i<length vs. vs ! i ! j))) [0..<n]) ts),
      st\<lparr>events := events st @ [RecordEvent CurrentStream, WaitEvent (cuda_stream c),
                                 CommAllreduce c n, Synchronize]\<rparr>)"
proof -
  have N: "length vs \<noteq> 0" using assms(1) by auto
  have n: "length (vs ! r) = n" using assms(1,2) by auto
  have f: "flatten ts = Inr (map Fin (vs ! r))"
    using assms(5-7) by (auto simp: flatten_def)
  have a: "\<not> (\<exists>t \<in> set ts. device t = CPU)" using assms(5,6) by auto
  note m = members_allreduce[OF assms(1-3)]
  show ?thesis
    using assms(4) a f m n N
    by (simp add: allreduce_coalesced_def resolve_comm_def stream_order_def issue_def Let_def
        comp_def)
qed

text \<open>
  C2. Let \<open>N\<close> ranks hold the vectors \<open>vs\<close>, all of length \<open>n\<close>, and let the
  collective be the elementwise sum. For the rank \<open>r\<close>, whose communicator has rank
  \<open>r\<close> and size \<open>N\<close>: \<open>allreduce\<close> without averaging leaves in its tensor, at each
  position, the sum of the values of all ranks at that position, which does not depend
  on \<open>r\<close>; with averaging, that sum divided by \<open>N\<close>. \<open>allreduce_coalesced\<close>
  does the same on the concatenation of its tensors and scatters the result back. In
  both the process issues one collective, the all-reduce; the division is a local
  operation on its result.
\<close>

theorem allreduce_sum_average:
  "r < length vs \<and> (\<forall>v \<in> set vs. length v = n)
     \<and> comm_rank c = int r \<and> comm_nranks c = int (length vs) \<longrightarrow>
   (device t \<noteq> CPU \<and> elems t = map Fin (vs ! r) \<longrightarrow>
      fst (allreduce (members (map (map Fin) vs)) t False (Some c) st)
        = Inr (t\<lparr>elems := map (\<lambda>j. Fin (\<Sum>i<length vs. vs ! i ! j)) [0..<n]\<rparr>)
      \<and> fst (allreduce (members (map (map Fin) vs)) t True (Some c) st)
          = Inr (t\<lparr>elems :=
                   map (\<lambda>j. Fin ((\<Sum>i<length vs. vs ! i ! j) / real (length vs))) [0..<n]\<rparr>)
      \<and> events (snd (allreduce (members (map (map Fin) vs)) t average (Some c) st))
          = events st @ [RecordEvent CurrentStream, WaitEvent (cuda_stream c),
                         CommAllreduce c n, Synchronize])
   \<and> ((\<forall>t \<in> set ts. device t = d) \<and> d \<noteq> CPU
        \<and> concat (map elems ts) = map Fin (vs ! r) \<longrightarrow>
      fst (allreduce_coalesced (members (map (map Fin) vs)) ts (Some c) False st)
        = Inr (scatter (map (\<lambda>j. Fin (\<Sum>i<length vs. vs ! i ! j)) [0..<n]) ts)
      \<and> concat (map elems (scatter (map (\<lambda>j. Fin (\<Sum>i<length vs. vs ! i ! j)) [0..<n]) ts))
          = map (\<lambda>j. Fin (\<Sum>i<length vs. vs ! i ! j)) [0..<n]
      \<and> fst (allreduce_coalesced (members (map (map Fin) vs)) ts (Some c) True st)
          = Inr (scatter
                   (map (\<lambda>j. Fin ((\<Sum>i<length vs. vs ! i ! j) / real (length vs))) [0..<n]) ts)
      \<and> concat (map elems (scatter
                   (map (\<lambda>j. Fin ((\<Sum>i<length vs. vs ! i ! j) / real (length vs))) [0..<n]) ts))
          = map (\<lambda>j. Fin ((\<Sum>i<length vs. vs ! i ! j) / real (length vs))) [0..<n]
      \<and> events (snd (allreduce_coalesced (members (map (map Fin) vs)) ts (Some c) average st))
          = events st @ [RecordEvent CurrentStream, WaitEvent (cuda_stream c),
                         CommAllreduce c n, Synchronize])"
proof (intro impI)
  assume a: "r < length vs \<and> (\<forall>v \<in> set vs. length v = n)
     \<and> comm_rank c = int r \<and> comm_nranks c = int (length vs)"
  then have r: "r < length vs" and l: "\<forall>v \<in> set vs. length v = n"
    and cr: "comm_rank c = int r" and cn: "comm_nranks c = int (length vs)"
    by simp_all
  have n: "length (vs ! r) = n" using r l by auto
  show "(device t \<noteq> CPU \<and> elems t = map Fin (vs ! r) \<longrightarrow>
      fst (allreduce (members (map (map Fin) vs)) t False (Some c) st)
        = Inr (t\<lparr>elems := map (\<lambda>j. Fin (\<Sum>i<length vs. vs ! i ! j)) [0..<n]\<rparr>)
      \<and> fst (allreduce (members (map (map Fin) vs)) t True (Some c) st)
          = Inr (t\<lparr>elems :=
                   map (\<lambda>j. Fin ((\<Sum>i<length vs. vs ! i ! j) / real (length vs))) [0..<n]\<rparr>)
      \<and> events (snd (allreduce (members (map (map Fin) vs)) t average (Some c) st))
          = events st @ [RecordEvent CurrentStream, WaitEvent (cuda_stream c),
                         CommAllreduce c n, Synchronize])
   \<and> ((\<forall>t \<in> set ts. device t = d) \<and> d \<noteq> CPU
        \<and> concat (map elems ts) = map Fin (vs ! r) \<longrightarrow>
      fst (allreduce_coalesced (members (map (map Fin) vs)) ts (Some c) False st)
        = Inr (scatter (map (\<lambda>j. Fin (\<Sum>i<length vs. vs ! i ! j)) [0..<n]) ts)
      \<and> concat (map elems (scatter (map (\<lambda>j. Fin (\<Sum>i<length vs. vs ! i ! j)) [0..<n]) ts))
          = map (\<lambda>j. Fin (\<Sum>i<length vs. vs ! i ! j)) [0..<n]
      \<and> fst (allreduce_coalesced (members (map (map Fin) vs)) ts (Some c) True st)
          = Inr (scatter
                   (map (\<lambda>j. Fin ((\<Sum>i<length vs. vs ! i ! j) / real (length vs))) [0..<n]) ts)
      \<and> concat (map elems (scatter
                   (map (\<lambda>j. Fin ((\<Sum>i<length vs. vs ! i ! j) / real (length vs))) [0..<n]) ts))
          = map (\<lambda>j. Fin ((\<Sum>i<length vs. vs ! i ! j) / real (length vs))) [0..<n]
      \<and> events (snd (allreduce_coalesced (members (map (map Fin) vs)) ts (Some c) average st))
          = events st @ [RecordEvent CurrentStream, WaitEvent (cuda_stream c),
                         CommAllreduce c n, Synchronize])"
  proof (intro conjI impI)
    assume b: "device t \<noteq> CPU \<and> elems t = map Fin (vs ! r)"
    then have d: "device t \<noteq> CPU" and e: "elems t = map Fin (vs ! r)" by simp_all
    note s = allreduce_members[OF r l cr cn d e]
    show "fst (allreduce (members (map (map Fin) vs)) t False (Some c) st)
        = Inr (t\<lparr>elems := map (\<lambda>j. Fin (\<Sum>i<length vs. vs ! i ! j)) [0..<n]\<rparr>)"
      by (simp add: s)
    show "fst (allreduce (members (map (map Fin) vs)) t True (Some c) st)
          = Inr (t\<lparr>elems :=
                   map (\<lambda>j. Fin ((\<Sum>i<length vs. vs ! i ! j) / real (length vs))) [0..<n]\<rparr>)"
      by (simp add: s)
    show "events (snd (allreduce (members (map (map Fin) vs)) t average (Some c) st))
          = events st @ [RecordEvent CurrentStream, WaitEvent (cuda_stream c),
                         CommAllreduce c n, Synchronize]"
      by (simp add: s)
  next
    assume b: "(\<forall>t \<in> set ts. device t = d) \<and> d \<noteq> CPU
        \<and> concat (map elems ts) = map Fin (vs ! r)"
    then have d: "\<forall>t \<in> set ts. device t = d" "d \<noteq> CPU"
      and e: "concat (map elems ts) = map Fin (vs ! r)" by simp_all
    note s = allreduce_coalesced_members[OF r l cr cn d e]
    have len: "length buf = n \<Longrightarrow> concat (map elems (scatter buf ts)) = buf" for buf
      using concat_scatter[of buf ts] e n by simp
    show "fst (allreduce_coalesced (members (map (map Fin) vs)) ts (Some c) False st)
        = Inr (scatter (map (\<lambda>j. Fin (\<Sum>i<length vs. vs ! i ! j)) [0..<n]) ts)"
      by (simp add: s)
    show "fst (allreduce_coalesced (members (map (map Fin) vs)) ts (Some c) True st)
          = Inr (scatter
                   (map (\<lambda>j. Fin ((\<Sum>i<length vs. vs ! i ! j) / real (length vs))) [0..<n]) ts)"
      by (simp add: s)
    show "events (snd (allreduce_coalesced (members (map (map Fin) vs)) ts (Some c) average st))
          = events st @ [RecordEvent CurrentStream, WaitEvent (cuda_stream c),
                         CommAllreduce c n, Synchronize]"
      by (simp add: s)
    show "concat (map elems (scatter (map (\<lambda>j. Fin (\<Sum>i<length vs. vs ! i ! j)) [0..<n]) ts))
          = map (\<lambda>j. Fin (\<Sum>i<length vs. vs ! i ! j)) [0..<n]"
      by (rule len) simp
    show "concat (map elems (scatter
                   (map (\<lambda>j. Fin ((\<Sum>i<length vs. vs ! i ! j) / real (length vs))) [0..<n]) ts))
          = map (\<lambda>j. Fin ((\<Sum>i<length vs. vs ! i ! j) / real (length vs))) [0..<n]"
      by (rule len) simp
  qed
qed

lemma ex_sums:
  "map (\<lambda>j. Fin (\<Sum>i<length [[1, 2], [3, 4::real]]. [[1, 2], [3, 4]] ! i ! j)) [0..<2]
     = [Fin 4, Fin 6]"
  "map (\<lambda>j. Fin ((\<Sum>i<length [[1, 2], [3, 4::real]]. [[1, 2], [3, 4]] ! i ! j)
                   / real (length [[1, 2], [3, 4::real]]))) [0..<2]
     = [Fin 2, Fin 3]"
  by (simp_all add: numeral_2_eq_2 upt_rec lessThan_Suc)

theorem allreduce_sum_average_witness:
  "fst (allreduce (members [[Fin 1, Fin 2], [Fin 3, Fin 4]]) (example_tensor (CUDA 1) [3, 4])
          False (Some (example_comm 1 2)) initial_proc)
     = Inr (example_tensor (CUDA 1) [4, 6])
   \<and> fst (allreduce (members [[Fin 1, Fin 2], [Fin 3, Fin 4]]) (example_tensor (CUDA 1) [3, 4])
          True (Some (example_comm 1 2)) initial_proc)
       = Inr (example_tensor (CUDA 1) [2, 3])
   \<and> fst (allreduce_coalesced (members [[Fin 1, Fin 2], [Fin 3, Fin 4]])
          [example_tensor (CUDA 1) [3], example_tensor (CUDA 1) [4]]
          (Some (example_comm 1 2)) False initial_proc)
       = Inr [example_tensor (CUDA 1) [4], example_tensor (CUDA 1) [6]]
   \<and> fst (allreduce_coalesced (members [[Fin 1, Fin 2], [Fin 3, Fin 4]])
          [example_tensor (CUDA 1) [3], example_tensor (CUDA 1) [4]]
          (Some (example_comm 1 2)) True initial_proc)
       = Inr [example_tensor (CUDA 1) [2], example_tensor (CUDA 1) [3]]"
proof -
  let ?vs = "[[1, 2], [3, 4::real]]"
  let ?c = "example_comm 1 2"
  let ?t = "example_tensor (CUDA 1) [3, 4]"
  let ?ts = "[example_tensor (CUDA 1) [3], example_tensor (CUDA 1) [4]]"
  have h: "1 < length ?vs \<and> (\<forall>v \<in> set ?vs. length v = 2)
     \<and> comm_rank ?c = int 1 \<and> comm_nranks ?c = int (length ?vs)"
    by (simp add: example_comm_def)
  have ht: "device ?t \<noteq> CPU \<and> elems ?t = map Fin (?vs ! 1)"
    by (simp add: example_tensor_def)
  have hts: "(\<forall>t \<in> set ?ts. device t = CUDA 1) \<and> CUDA 1 \<noteq> CPU
        \<and> concat (map elems ?ts) = map Fin (?vs ! 1)"
    by (simp add: example_tensor_def)
  note t = allreduce_sum_average[of 1 ?vs 2 ?c ?t initial_proc True ?ts "CUDA 1"]
  have m: "map (map Fin) ?vs = [[Fin 1, Fin 2], [Fin 3, Fin 4]]" by simp
  have u: "?t\<lparr>elems := [Fin 4, Fin 6]\<rparr> = example_tensor (CUDA 1) [4, 6]"
    "?t\<lparr>elems := [Fin 2, Fin 3]\<rparr> = example_tensor (CUDA 1) [2, 3]"
    by (simp_all add: example_tensor_def)
  have s: "scatter [Fin 4, Fin 6] ?ts = [example_tensor (CUDA 1) [4], example_tensor (CUDA 1) [6]]"
    "scatter [Fin 2, Fin 3] ?ts = [example_tensor (CUDA 1) [2], example_tensor (CUDA 1) [3]]"
    by (simp_all add: scatter_def copy_tensor_def example_tensor_def)
  from t h ht have a:
    "fst (allreduce (members (map (map Fin) ?vs)) ?t False (Some ?c) initial_proc)
        = Inr (?t\<lparr>elems := map (\<lambda>j. Fin (\<Sum>i<length ?vs. ?vs ! i ! j)) [0..<2]\<rparr>)"
    "fst (allreduce (members (map (map Fin) ?vs)) ?t True (Some ?c) initial_proc)
        = Inr (?t\<lparr>elems :=
                 map (\<lambda>j. Fin ((\<Sum>i<length ?vs. ?vs ! i ! j) / real (length ?vs))) [0..<2]\<rparr>)"
    by blast+
  from t h hts have b:
    "fst (allreduce_coalesced (members (map (map Fin) ?vs)) ?ts (Some ?c) False initial_proc)
        = Inr (scatter (map (\<lambda>j. Fin (\<Sum>i<length ?vs. ?vs ! i ! j)) [0..<2]) ?ts)"
    "fst (allreduce_coalesced (members (map (map Fin) ?vs)) ?ts (Some ?c) True initial_proc)
        = Inr (scatter
            (map (\<lambda>j. Fin ((\<Sum>i<length ?vs. ?vs ! i ! j) / real (length ?vs))) [0..<2]) ?ts)"
    by blast+
  show ?thesis
    using a b unfolding m ex_sums u s by blast
qed

end
